theory Spec2Isabelle
  imports Complex_Main "HOL-Library.Word" "HOL-Library.Monad_Syntax"
begin

text \<open>
  The server of the address form: the validation schema, the routes and the in-memory
  store. The three modules stand one after the other in \<^verbatim>\<open>src/shared/schema.ts\<close>:
  the schema (lines 1 to 60), the routes (lines 61 to 213) and the store (lines 214 to
  274).
\<close>

section \<open>JavaScript values\<close>

text \<open>
  A JavaScript string is a sequence of UTF-16 code units, and \<open>s.length\<close> counts
  code units. Strings are therefore lists of 16-bit words; \<open>js\<close> embeds a literal
  of the source (all of them are ASCII).
\<close>

type_synonym code_unit = "16 word"
type_synonym js_string = "code_unit list"

definition js :: "string \<Rightarrow> js_string" where
  "js s = map (\<lambda>c. word_of_nat (of_char c)) s"

section \<open>JSON data\<close>

text \<open>
  A request body or a provider payload, as \<open>JSON.parse\<close> delivers it. \<open>undefined\<close>
  is not a JSON value: a value that may be \<open>undefined\<close> has type \<open>json option\<close>,
  and \<open>None\<close> is \<open>undefined\<close>. An object is the list of its own properties,
  each key once; \<open>property\<close> reads one of them and gives \<open>undefined\<close> for a key
  that is not there.
\<close>

datatype json =
    JNull
  | JBoolean bool
  | JNumber real
  | JString js_string
  | JArray "json list"
  | JObject "(js_string \<times> json) list"

definition property :: "(js_string \<times> json) list \<Rightarrow> js_string \<Rightarrow> json option" where
  "property data key = map_of data key"

section \<open>The shapes of the places proxy (lines 46 to 60)\<close>

text \<open>
  \<open>PlacesSuggestion\<close> and \<open>PlacesDetails\<close>. TypeScript declares their fields as
  strings, but the routes fill them with whatever the provider sent, so a field holds
  any JSON value or \<open>undefined\<close>; \<open>res.json\<close> leaves an \<open>undefined\<close> field out.
\<close>

record PlacesSuggestion =
  placeId :: "json option"
  description :: "json option"
  mainText :: "json option"
  secondaryText :: "json option"

record PlacesDetails =
  streetNumber :: "json option"
  route :: "json option"
  locality :: "json option"
  administrativeAreaLevel1 :: "json option"
  postalCode :: "json option"
  country :: "json option"

section \<open>The record store (lines 228 to 274)\<close>

text \<open>
  \<open>InsertUser\<close>, \<open>User\<close>, \<open>InsertAddress\<close> and \<open>Address\<close> as the schema declares them.
  \<open>Address\<close> is \<open>InsertAddress\<close> extended by \<open>id\<close> and \<open>userId\<close>; the field \<open>id\<close> is
  named \<open>address_id\<close> (\<open>user_id\<close> for users) because \<open>id\<close> is the identity function
  of HOL. An absent \<open>apartment\<close> and the \<open>null\<close> of \<open>userId\<close> are \<open>None\<close>. From
  here on \<open>country\<close> is the field of an address, and \<open>PlacesDetails.country\<close> the one
  of the place details.
\<close>

record insert_user =
  username :: js_string
  password :: js_string

record user = insert_user +
  user_id :: nat

record insert_address =
  streetAddress :: js_string
  city :: js_string
  state :: js_string
  zipCode :: js_string
  country :: js_string
  apartment :: "js_string option"
  addressType :: js_string

record address = insert_address +
  address_id :: nat
  userId :: "nat option"

text \<open>
  A JavaScript \<open>Map\<close> keeps its entries in insertion order; \<open>set\<close> on a key that is
  already present replaces the value where the entry stands, \<open>set\<close> on a new key
  appends the entry. \<open>values()\<close> walks the entries in that order.
\<close>

type_synonym ('k, 'v) js_map = "('k \<times> 'v) list"

fun Map_set :: "'k \<Rightarrow> 'v \<Rightarrow> ('k, 'v) js_map \<Rightarrow> ('k, 'v) js_map" where
  "Map_set k v [] = [(k, v)]"
| "Map_set k v (e # es) = (if fst e = k then (k, v) # es else e # Map_set k v es)"

fun Map_get :: "'k \<Rightarrow> ('k, 'v) js_map \<Rightarrow> 'v option" where
  "Map_get k [] = None"
| "Map_get k (e # es) = (if fst e = k then Some (snd e) else Map_get k es)"

definition Map_values :: "('k, 'v) js_map \<Rightarrow> 'v list" where
  "Map_values m = map snd m"

text \<open>
  The two counters are JavaScript numbers that start at 1 and only ever grow by
  \<open>++\<close>. Every value they can take while the maps fit in memory is an integer
  that a double represents exactly, so they are natural numbers here.
\<close>

record MemStorage =
  users :: "(nat, user) js_map"
  addresses :: "(nat, address) js_map"
  currentUserId :: nat
  currentAddressId :: nat

definition new_MemStorage :: MemStorage where
  "new_MemStorage = \<lparr>users = [], addresses = [], currentUserId = 1, currentAddressId = 1\<rparr>"

definition getUser :: "nat \<Rightarrow> MemStorage \<Rightarrow> user option" where
  "getUser i st = Map_get i (users st)"

definition getUserByUsername :: "js_string \<Rightarrow> MemStorage \<Rightarrow> user option" where
  "getUserByUsername name st = find (\<lambda>u. username u = name) (Map_values (users st))"

definition createUser :: "insert_user \<Rightarrow> MemStorage \<Rightarrow> user \<times> MemStorage" where
  "createUser insertUser st =
     (let i = currentUserId st;
          st1 = st\<lparr>currentUserId := i + 1\<rparr>;
          u = insert_user.extend insertUser (user.fields i)
      in (u, st1\<lparr>users := Map_set i u (users st1)\<rparr>))"

definition createAddress :: "insert_address \<Rightarrow> MemStorage \<Rightarrow> address \<times> MemStorage" where
  "createAddress insertAddress st =
     (let i = currentAddressId st;
          st1 = st\<lparr>currentAddressId := i + 1\<rparr>;
          a = insert_address.extend insertAddress (address.fields i None)
      in (a, st1\<lparr>addresses := Map_set i a (addresses st1)\<rparr>))"

definition getAddresses :: "MemStorage \<Rightarrow> address list" where
  "getAddresses st = Map_values (addresses st)"

definition getAddressById :: "nat \<Rightarrow> MemStorage \<Rightarrow> address option" where
  "getAddressById i st = Map_get i (addresses st)"

text \<open>A run of \<open>createAddress\<close> calls, one per input, in the order of the list.\<close>

fun createAddresses :: "insert_address list \<Rightarrow> MemStorage \<Rightarrow> MemStorage" where
  "createAddresses [] st = st"
| "createAddresses (x # xs) st = createAddresses xs (snd (createAddress x st))"

text \<open>The record that \<open>createAddress\<close> builds from input \<open>x\<close> and identifier \<open>i\<close>.\<close>

definition stored :: "nat \<Rightarrow> insert_address \<Rightarrow> address" where
  "stored i x = insert_address.extend x (address.fields i None)"

section \<open>Regular expressions\<close>

text \<open>
  The constructs of the one regular expression of the schema: \<open>^\<close>, \<open>$\<close>
  (without the \<open>m\<close> flag: start and end of the input), \<open>\d\<close> (the ten ASCII digits),
  a literal code unit, concatenation, \<open>(...)?\<close> and \<open>{n}\<close>. \<open>rmatch r s i\<close> lists
  the positions where a match of \<open>r\<close> that starts at position \<open>i\<close> of \<open>s\<close> can
  end, in the order in which a backtracking matcher tries them; \<open>{n}\<close> matches its
  operand \<open>n\<close> times in a row. \<open>RegExp_test\<close> is
  \<open>RegExp.prototype.test\<close> for a regular expression without the \<open>g\<close> and \<open>y\<close>
  flags: a match may start at any position.
\<close>

datatype regex =
    Bol
  | Eol
  | Digit
  | Lit code_unit
  | Seq regex regex
  | Opt regex
  | Repeat nat regex

definition is_digit :: "code_unit \<Rightarrow> bool" where
  "is_digit c = (0x30 \<le> c \<and> c \<le> 0x39)"

fun rmatch :: "regex \<Rightarrow> js_string \<Rightarrow> nat \<Rightarrow> nat list" where
  "rmatch Bol s i = (if i = 0 then [i] else [])"
| "rmatch Eol s i = (if i = length s then [i] else [])"
| "rmatch Digit s i = (if i < length s \<and> is_digit (s ! i) then [Suc i] else [])"
| "rmatch (Lit c) s i = (if i < length s \<and> s ! i = c then [Suc i] else [])"
| "rmatch (Seq a b) s i = concat (map (rmatch b s) (rmatch a s i))"
| "rmatch (Opt a) s i = rmatch a s i @ [i]"
| "rmatch (Repeat n a) s i = ((\<lambda>ps. concat (map (rmatch a s) ps)) ^^ n) [i]"

definition RegExp_test :: "regex \<Rightarrow> js_string \<Rightarrow> bool" where
  "RegExp_test r s = list_ex (\<lambda>i. rmatch r s i \<noteq> []) [0 ..< Suc (length s)]"

text \<open>\<^verbatim>\<open>/^\d{5}(-\d{4})?$/\<close>; the code unit \<open>0x2D\<close> is the hyphen.\<close>

definition zip_regex :: regex where
  "zip_regex =
     Seq Bol (Seq (Repeat 5 Digit) (Seq (Opt (Seq (Lit 0x2D) (Repeat 4 Digit))) Eol))"

text \<open>
  What the pattern stands for, in the words of the data model: five digits, or five
  digits, a hyphen and four digits.
\<close>

definition five_or_five_plus_four :: "js_string \<Rightarrow> bool" where
  "five_or_five_plus_four s =
     (length s = 5 \<and> list_all is_digit s
      \<or> length s = 10 \<and> list_all is_digit (take 5 s) \<and> s ! 5 = 0x2D
          \<and> list_all is_digit (drop 6 s))"

section \<open>The validation layer (lines 28 to 39)\<close>

text \<open>
  The part of zod that \<open>insertAddressSchema\<close> uses. A parser gets the path of the
  value and the value, and returns the issues it raises together with its output,
  \<open>None\<close> when it gives up on the value (zod's \<open>INVALID\<close>). An issue carries a
  code, the path of the offending value and a message: the message written in the
  schema, or the one zod's default error map makes up (\<open>DefaultMessage\<close>).
\<close>

datatype issue_code = invalid_type | too_small | invalid_string | invalid_enum_value

datatype message = Message string | DefaultMessage

record issue =
  code :: issue_code
  path :: "js_string list"
  message :: message

type_synonym 'a parser = "js_string list \<Rightarrow> json option \<Rightarrow> issue list \<times> 'a option"

datatype check = Min nat string | Regex regex string

fun run_check :: "js_string list \<Rightarrow> js_string \<Rightarrow> check \<Rightarrow> issue list" where
  "run_check p s (Min n msg) =
     (if length s < n then [\<lparr>code = too_small, path = p, message = Message msg\<rparr>] else [])"
| "run_check p s (Regex r msg) =
     (if \<not> RegExp_test r s then [\<lparr>code = invalid_string, path = p, message = Message msg\<rparr>]
      else [])"

text \<open>
  \<open>z.string()\<close> with its checks: a value that is not a string raises one issue and
  no check runs; on a string every check runs, and each failing one raises its issue.
\<close>

definition ZodString :: "check list \<Rightarrow> js_string parser" where
  "ZodString checks p input =
     (case input of
        Some (JString s) \<Rightarrow> (concat (map (run_check p s) checks), Some s)
      | _ \<Rightarrow> ([\<lparr>code = invalid_type, path = p, message = DefaultMessage\<rparr>], None))"

text \<open>\<open>.optional()\<close>: \<open>undefined\<close> passes as it is, anything else goes to the inner parser.\<close>

definition ZodOptional :: "'a parser \<Rightarrow> 'a option parser" where
  "ZodOptional inner p input =
     (case input of
        None \<Rightarrow> ([], Some None)
      | Some v \<Rightarrow> (case inner p input of (issues, out) \<Rightarrow> (issues, map_option Some out)))"

text \<open>\<open>z.enum([...])\<close>: a string that is one of the listed values.\<close>

definition ZodEnum :: "js_string list \<Rightarrow> js_string parser" where
  "ZodEnum vals p input =
     (case input of
        Some (JString s) \<Rightarrow>
          (if s \<in> set vals then ([], Some s)
           else ([\<lparr>code = invalid_enum_value, path = p, message = DefaultMessage\<rparr>], None))
      | _ \<Rightarrow> ([\<lparr>code = invalid_type, path = p, message = DefaultMessage\<rparr>], None))"

text \<open>\<open>.default(d)\<close>: \<open>undefined\<close> is replaced by \<open>d\<close> before the inner parser runs.\<close>

definition ZodDefault :: "'a parser \<Rightarrow> json \<Rightarrow> 'a parser" where
  "ZodDefault inner d p input =
     inner p (case input of None \<Rightarrow> Some d | Some v \<Rightarrow> Some v)"

text \<open>
  The seven keys of \<open>insertAddressSchema\<close>: \<open>createInsertSchema(addresses)\<close> without
  \<open>id\<close> and \<open>userId\<close>, every remaining key replaced by the parser given in \<open>extend\<close>.
\<close>

definition streetAddress_schema :: "js_string parser" where
  "streetAddress_schema = ZodString [Min 1 ''Street address is required'']"

definition city_schema :: "js_string parser" where
  "city_schema = ZodString [Min 1 ''City is required'']"

definition state_schema :: "js_string parser" where
  "state_schema = ZodString [Min 1 ''State is required'']"

definition zipCode_schema :: "js_string parser" where
  "zipCode_schema =
     ZodString [Min 1 ''ZIP code is required'', Regex zip_regex ''Please enter a valid ZIP code'']"

definition country_schema :: "js_string parser" where
  "country_schema = ZodString [Min 1 ''Country is required'']"

definition apartment_schema :: "js_string option parser" where
  "apartment_schema = ZodOptional (ZodString [])"

definition addressType_schema :: "js_string parser" where
  "addressType_schema =
     ZodDefault (ZodEnum [js ''home'', js ''work'', js ''other'']) (JString (js ''home''))"

text \<open>
  The object parser of zod, for these seven keys: a value that is not an object raises
  one issue with the empty path. On an object every key of the shape is parsed, in
  the order of the shape, with the key as path; the issues of all keys are collected.
  Keys that the shape does not list are dropped. \<open>field k\<close> runs the parser of one
  key on the data.
\<close>

definition field :: "js_string \<Rightarrow> 'a parser \<Rightarrow> (js_string \<times> json) list \<Rightarrow> issue list \<times> 'a option" where
  "field k parser data = parser [k] (property data k)"

definition insertAddressSchema_issues :: "(js_string \<times> json) list \<Rightarrow> issue list" where
  "insertAddressSchema_issues data =
     fst (field (js ''streetAddress'') streetAddress_schema data)
     @ fst (field (js ''city'') city_schema data)
     @ fst (field (js ''state'') state_schema data)
     @ fst (field (js ''zipCode'') zipCode_schema data)
     @ fst (field (js ''country'') country_schema data)
     @ fst (field (js ''apartment'') apartment_schema data)
     @ fst (field (js ''addressType'') addressType_schema data)"

definition insertAddressSchema_value :: "(js_string \<times> json) list \<Rightarrow> insert_address option" where
  "insertAddressSchema_value data =
     do {
       a \<leftarrow> snd (field (js ''streetAddress'') streetAddress_schema data);
       b \<leftarrow> snd (field (js ''city'') city_schema data);
       c \<leftarrow> snd (field (js ''state'') state_schema data);
       d \<leftarrow> snd (field (js ''zipCode'') zipCode_schema data);
       e \<leftarrow> snd (field (js ''country'') country_schema data);
       f \<leftarrow> snd (field (js ''apartment'') apartment_schema data);
       g \<leftarrow> snd (field (js ''addressType'') addressType_schema data);
       Some \<lparr>streetAddress = a, city = b, state = c, zipCode = d, country = e,
              apartment = f, addressType = g\<rparr>
     }"

text \<open>
  \<open>insertAddressSchema.parse\<close>: the output when no issue was raised, otherwise the
  \<open>ZodError\<close> with all issues (\<open>Inl\<close>).
\<close>

definition insertAddressSchema_parse :: "json option \<Rightarrow> issue list + insert_address" where
  "insertAddressSchema_parse input =
     (case input of
        Some (JObject data) \<Rightarrow>
          (case (insertAddressSchema_issues data, insertAddressSchema_value data) of
             ([], Some validatedData) \<Rightarrow> Inr validatedData
           | (issues, _) \<Rightarrow> Inl issues)
      | _ \<Rightarrow> Inl [\<lparr>code = invalid_type, path = [], message = DefaultMessage\<rparr>])"

section \<open>The routes (lines 67 to 213)\<close>

subsection \<open>JavaScript operations on untyped data\<close>

text \<open>
  The provider's payload has type \<open>any\<close>. \<open>truthy\<close> is the test that \<open>||\<close> and
  \<open>!\<close> apply. \<open>read x k\<close> is \<open>x.k\<close>: a \<open>TypeError\<close> on \<open>undefined\<close> and
  \<open>null\<close>, the own property on an object, and \<open>undefined\<close> on a boolean, number,
  string or array (none of the keys read by the routes is a property of their
  prototypes). \<open>read_opt x k\<close> is \<open>x?.k\<close>.
\<close>

datatype exception = TypeError | URIError | NetworkError | SyntaxError | GooglePlacesApiError

fun truthy :: "json option \<Rightarrow> bool" where
  "truthy None = False"
| "truthy (Some JNull) = False"
| "truthy (Some (JBoolean b)) = b"
| "truthy (Some (JNumber r)) = (r \<noteq> 0)"
| "truthy (Some (JString s)) = (s \<noteq> [])"
| "truthy (Some (JArray xs)) = True"
| "truthy (Some (JObject data)) = True"

fun read :: "json option \<Rightarrow> js_string \<Rightarrow> exception + json option" where
  "read None k = Inl TypeError"
| "read (Some JNull) k = Inl TypeError"
| "read (Some (JObject data)) k = Inr (property data k)"
| "read (Some v) k = Inr None"

fun read_opt :: "json option \<Rightarrow> js_string \<Rightarrow> json option" where
  "read_opt None k = None"
| "read_opt (Some JNull) k = None"
| "read_opt (Some (JObject data)) k = property data k"
| "read_opt (Some v) k = None"

text \<open>Sequencing of steps that may throw: the first exception ends the run.\<close>

definition and_then :: "exception + 'a \<Rightarrow> ('a \<Rightarrow> exception + 'b) \<Rightarrow> exception + 'b" where
  "and_then r f = (case r of Inl e \<Rightarrow> Inl e | Inr x \<Rightarrow> f x)"

text \<open>\<open>Array.prototype.map\<close> and \<open>forEach\<close> with a callback that may throw.\<close>

fun array_map :: "('a \<Rightarrow> exception + 'b) \<Rightarrow> 'a list \<Rightarrow> exception + 'b list" where
  "array_map f [] = Inr []"
| "array_map f (x # xs) =
     and_then (f x) (\<lambda>y. and_then (array_map f xs) (\<lambda>ys. Inr (y # ys)))"

fun forEach :: "('s \<Rightarrow> 'a \<Rightarrow> exception + 's) \<Rightarrow> 'a list \<Rightarrow> 's \<Rightarrow> exception + 's" where
  "forEach f [] acc = Inr acc"
| "forEach f (x # xs) acc = and_then (f acc x) (forEach f xs)"

text \<open>
  \<open>types.includes(x)\<close> for a string \<open>x\<close>: membership on an array, the substring test
  on a string, and a \<open>TypeError\<close> on anything else (\<open>undefined\<close> and \<open>null\<close> have
  no properties, the others no callable \<open>includes\<close>).
\<close>

fun string_includes :: "js_string \<Rightarrow> js_string \<Rightarrow> bool" where
  "string_includes [] x = (x = [])"
| "string_includes (c # s) x = (take (length x) (c # s) = x \<or> string_includes s x)"

fun js_includes :: "json option \<Rightarrow> js_string \<Rightarrow> exception + bool" where
  "js_includes (Some (JArray xs)) x = Inr (JString x \<in> set xs)"
| "js_includes (Some (JString s)) x = Inr (string_includes s x)"
| "js_includes v x = Inl TypeError"

subsection \<open>The environment of the routes\<close>

text \<open>
  What the process is given: the two environment variables, and the two functions of
  the platform that the routes call. \<open>fetch\<close> gets the URL and answers with a
  response, or rejects (\<open>None\<close>); \<open>response.json()\<close> rejects when the body is not
  JSON (\<open>response_json = None\<close>); \<open>response.ok\<close> says that the status is in the
  range 200 to 299. \<open>encodeURIComponent\<close> throws a \<open>URIError\<close> (\<open>None\<close>) on a string
  with a lone surrogate.
\<close>

record fetch_response =
  response_status :: nat
  response_json :: "json option"

definition response_ok :: "fetch_response \<Rightarrow> bool" where
  "response_ok response = (200 \<le> response_status response \<and> response_status response \<le> 299)"

record platform =
  env_GOOGLE_PLACES_API_KEY :: "js_string option"
  env_GOOGLE_API_KEY :: "js_string option"
  fetch :: "js_string \<Rightarrow> fetch_response option"
  encodeURIComponent :: "js_string \<Rightarrow> js_string option"

text \<open>
  \<^verbatim>\<open>process.env.GOOGLE_PLACES_API_KEY || process.env.GOOGLE_API_KEY || ""\<close>:
  an unset variable and an empty one are both falsy.
\<close>

definition GOOGLE_API_KEY :: "platform \<Rightarrow> js_string" where
  "GOOGLE_API_KEY pf =
     (case env_GOOGLE_PLACES_API_KEY pf of
        Some (c # k) \<Rightarrow> c # k
      | _ \<Rightarrow> (case env_GOOGLE_API_KEY pf of Some (c # k) \<Rightarrow> c # k | _ \<Rightarrow> []))"

text \<open>
  A value of \<open>req.query\<close>, as the query parser of Express delivers it: a string, an
  array or a nested object; a missing parameter is \<open>undefined\<close>.
\<close>

datatype query_value =
    QString js_string
  | QArray "query_value list"
  | QObject "(js_string \<times> query_value) list"

text \<open>
  A response: the status (200 unless \<open>res.status\<close> sets it) and the body given to
  \<open>res.json\<close>. \<open>Failure error message\<close> is the body \<open>{error, message}\<close>,
  \<open>ValidationFailure details\<close> the body \<open>{error: "Validation error", details}\<close>.
\<close>

datatype response_body =
    Predictions "PlacesSuggestion list"
  | Details PlacesDetails
  | Created address
  | Addresses "address list"
  | ValidationFailure "issue list"
  | Failure string string

record http_response =
  status :: nat
  body :: response_body

text \<open>
  A route returns its response and the list of the URLs it has fetched, in order: the
  calls to the external service.
\<close>

type_synonym outcome = "http_response \<times> js_string list"

subsection \<open>GET /api/places/suggestions\<close>

definition suggestion_of :: "json \<Rightarrow> exception + PlacesSuggestion" where
  "suggestion_of prediction =
     and_then (read (Some prediction) (js ''place_id'')) (\<lambda>place_id.
     and_then (read (Some prediction) (js ''description'')) (\<lambda>desc.
     and_then (read (Some prediction) (js ''structured_formatting'')) (\<lambda>structured_formatting.
       Inr \<lparr>placeId = place_id,
            description = desc,
            mainText =
              (if truthy (read_opt structured_formatting (js ''main_text''))
               then read_opt structured_formatting (js ''main_text'') else desc),
            secondaryText =
              (if truthy (read_opt structured_formatting (js ''secondary_text''))
               then read_opt structured_formatting (js ''secondary_text'')
               else Some (JString []))\<rparr>)))"

text \<open>
  The part of the handler after \<open>response.json()\<close>. \<open>data.predictions?.map(...) || []\<close>:
  \<open>undefined\<close> and \<open>null\<close> give the empty list, an array is mapped, and any other
  value has no \<open>map\<close> to call.
\<close>

definition suggestions_of_data :: "json \<Rightarrow> exception + http_response" where
  "suggestions_of_data data =
     and_then (read (Some data) (js ''status'')) (\<lambda>st.
       if st \<noteq> Some (JString (js ''OK'')) \<and> st \<noteq> Some (JString (js ''ZERO_RESULTS''))
       then Inl GooglePlacesApiError
       else
         and_then (read (Some data) (js ''predictions'')) (\<lambda>predictions.
         and_then
           (case predictions of
              None \<Rightarrow> Inr []
            | Some JNull \<Rightarrow> Inr []
            | Some (JArray ps) \<Rightarrow> array_map suggestion_of ps
            | Some v \<Rightarrow> Inl TypeError) (\<lambda>suggestions.
           Inr \<lparr>status = 200, body = Predictions suggestions\<rparr>)))"

definition suggestions_url :: "js_string \<Rightarrow> js_string \<Rightarrow> js_string" where
  "suggestions_url encoded key =
     js ''https://maps.googleapis.com/maps/api/place/autocomplete/json?input='' @ encoded
     @ js ''&types=address&key='' @ key"

text \<open>The body of \<open>try\<close>: the response it sends or the exception it throws, and the calls.\<close>

definition suggestions_try :: "platform \<Rightarrow> query_value option \<Rightarrow> (exception + http_response) \<times> js_string list" where
  "suggestions_try pf input =
     (case input of
        Some (QString s) \<Rightarrow>
          if s = [] \<or> length s < 3 then (Inr \<lparr>status = 200, body = Predictions []\<rparr>, [])
          else if GOOGLE_API_KEY pf = [] then
            (Inr \<lparr>status = 503,
                  body = Failure ''Google Places API key not configured''
                                 ''Address autocomplete is temporarily unavailable''\<rparr>, [])
          else
            (case encodeURIComponent pf s of
               None \<Rightarrow> (Inl URIError, [])
             | Some encoded \<Rightarrow>
                 (let url = suggestions_url encoded (GOOGLE_API_KEY pf) in
                  (case fetch pf url of
                     None \<Rightarrow> Inl NetworkError
                   | Some response \<Rightarrow>
                       if \<not> response_ok response then Inl GooglePlacesApiError
                       else (case response_json response of
                               None \<Rightarrow> Inl SyntaxError
                             | Some data \<Rightarrow> suggestions_of_data data),
                   [url])))
      | _ \<Rightarrow> (Inr \<lparr>status = 200, body = Predictions []\<rparr>, []))"

definition get_places_suggestions :: "platform \<Rightarrow> query_value option \<Rightarrow> outcome" where
  "get_places_suggestions pf input =
     (case suggestions_try pf input of
        (Inr response, calls) \<Rightarrow> (response, calls)
      | (Inl error, calls) \<Rightarrow>
          (\<lparr>status = 500,
            body = Failure ''Failed to fetch address suggestions''
                           ''Address autocomplete service is temporarily unavailable''\<rparr>, calls))"

subsection \<open>GET /api/places/details/:placeId\<close>

definition no_details :: PlacesDetails where
  "no_details = \<lparr>streetNumber = None, route = None, locality = None,
                  administrativeAreaLevel1 = None, postalCode = None,
                  PlacesDetails.country = None\<rparr>"

text \<open>The callback of \<open>forEach\<close>: one address component, applied to the details so far.\<close>

definition component_step :: "PlacesDetails \<Rightarrow> json \<Rightarrow> exception + PlacesDetails" where
  "component_step details component =
     and_then (read (Some component) (js ''types'')) (\<lambda>types.
     and_then (js_includes types (js ''street_number'')) (\<lambda>is_street_number.
       if is_street_number then
         and_then (read (Some component) (js ''long_name'')) (\<lambda>v. Inr (details\<lparr>streetNumber := v\<rparr>))
       else
     and_then (js_includes types (js ''route'')) (\<lambda>is_route.
       if is_route then
         and_then (read (Some component) (js ''long_name'')) (\<lambda>v. Inr (details\<lparr>route := v\<rparr>))
       else
     and_then (js_includes types (js ''locality'')) (\<lambda>is_locality.
       if is_locality then
         and_then (read (Some component) (js ''long_name'')) (\<lambda>v. Inr (details\<lparr>locality := v\<rparr>))
       else
     and_then (js_includes types (js ''administrative_area_level_1'')) (\<lambda>is_area.
       if is_area then
         and_then (read (Some component) (js ''short_name''))
           (\<lambda>v. Inr (details\<lparr>administrativeAreaLevel1 := v\<rparr>))
       else
     and_then (js_includes types (js ''postal_code'')) (\<lambda>is_postal_code.
       if is_postal_code then
         and_then (read (Some component) (js ''long_name'')) (\<lambda>v. Inr (details\<lparr>postalCode := v\<rparr>))
       else
     and_then (js_includes types (js ''country'')) (\<lambda>is_country.
       if is_country then
         and_then (read (Some component) (js ''short_name''))
           (\<lambda>v. Inr (details\<lparr>PlacesDetails.country := v\<rparr>))
       else Inr details)))))))"

text \<open>
  The part of the handler after \<open>response.json()\<close>.
  \<open>data.result?.address_components || []\<close> is the empty array when the value is
  falsy; \<open>forEach\<close> exists on an array only.
\<close>

definition details_of_data :: "json \<Rightarrow> exception + http_response" where
  "details_of_data data =
     and_then (read (Some data) (js ''status'')) (\<lambda>st.
       if st \<noteq> Some (JString (js ''OK'')) then Inl GooglePlacesApiError
       else
         and_then (read (Some data) (js ''result'')) (\<lambda>result.
           (case (if truthy (read_opt result (js ''address_components''))
                  then read_opt result (js ''address_components'') else Some (JArray [])) of
              Some (JArray addressComponents) \<Rightarrow>
                and_then (forEach component_step addressComponents no_details) (\<lambda>details.
                  Inr \<lparr>status = 200, body = Details details\<rparr>)
            | _ \<Rightarrow> Inl TypeError)))"

text \<open>
  When the part after \<open>response.json()\<close> gets through without a \<open>TypeError\<close>, read
  off the handler: a component must have a \<open>types\<close> that is an array or a string
  (anything else has no \<open>includes\<close> to call), and \<open>address_components\<close> must be an
  array of such components or a falsy value.
\<close>

definition component_ok :: "json \<Rightarrow> bool" where
  "component_ok component =
     (case read (Some component) (js ''types'') of
        Inr (Some (JArray ts)) \<Rightarrow> True
      | Inr (Some (JString t)) \<Rightarrow> True
      | _ \<Rightarrow> False)"

definition address_components_ok :: "json \<Rightarrow> bool" where
  "address_components_ok data =
     (case read (Some data) (js ''result'') of
        Inl e \<Rightarrow> False
      | Inr result \<Rightarrow>
          (case read_opt result (js ''address_components'') of
             Some (JArray addressComponents) \<Rightarrow> list_all component_ok addressComponents
           | v \<Rightarrow> \<not> truthy v))"

definition details_url :: "js_string \<Rightarrow> js_string \<Rightarrow> js_string" where
  "details_url place_id key =
     js ''https://maps.googleapis.com/maps/api/place/details/json?place_id='' @ place_id
     @ js ''&fields=address_components&key='' @ key"

definition details_try :: "platform \<Rightarrow> js_string \<Rightarrow> (exception + http_response) \<times> js_string list" where
  "details_try pf place_id =
     (if GOOGLE_API_KEY pf = [] then
        (Inr \<lparr>status = 503,
              body = Failure ''Google Places API key not configured''
                             ''Address details service is temporarily unavailable''\<rparr>, [])
      else
        (let url = details_url place_id (GOOGLE_API_KEY pf) in
         (case fetch pf url of
            None \<Rightarrow> Inl NetworkError
          | Some response \<Rightarrow>
              if \<not> response_ok response then Inl GooglePlacesApiError
              else (case response_json response of
                      None \<Rightarrow> Inl SyntaxError
                    | Some data \<Rightarrow> details_of_data data),
          [url])))"

definition get_places_details :: "platform \<Rightarrow> js_string \<Rightarrow> outcome" where
  "get_places_details pf place_id =
     (case details_try pf place_id of
        (Inr response, calls) \<Rightarrow> (response, calls)
      | (Inl error, calls) \<Rightarrow>
          (\<lparr>status = 500,
            body = Failure ''Failed to fetch address details''
                           ''Address details service is temporarily unavailable''\<rparr>, calls))"

subsection \<open>POST /api/addresses and GET /api/addresses\<close>

text \<open>
  The handlers run on the one store of the process and return the store they leave.
  Neither \<open>createAddress\<close> nor \<open>getAddresses\<close> of \<open>MemStorage\<close> throws, so the 500
  branches of these two handlers are never taken.
\<close>

definition post_addresses :: "json option \<Rightarrow> MemStorage \<Rightarrow> http_response \<times> MemStorage" where
  "post_addresses req_body storage =
     (case insertAddressSchema_parse req_body of
        Inr validatedData \<Rightarrow>
          (case createAddress validatedData storage of
             (address, storage') \<Rightarrow> (\<lparr>status = 201, body = Created address\<rparr>, storage'))
      | Inl errors \<Rightarrow> (\<lparr>status = 400, body = ValidationFailure errors\<rparr>, storage))"

definition get_addresses :: "MemStorage \<Rightarrow> http_response \<times> MemStorage" where
  "get_addresses storage = (\<lparr>status = 200, body = Addresses (getAddresses storage)\<rparr>, storage)"

section \<open>Trimming, and example inputs\<close>

text \<open>
  \<open>String.prototype.trim\<close>, for the statement "empty after trimming": it removes
  the white space and line terminators of ECMAScript from both ends.
\<close>

definition is_white_space :: "code_unit \<Rightarrow> bool" where
  "is_white_space c =
     (c \<in> {0x0009, 0x000A, 0x000B, 0x000C, 0x000D, 0x0020, 0x00A0, 0x1680, 0x2028, 0x2029,
            0x202F, 0x205F, 0x3000, 0xFEFF}
      \<or> 0x2000 \<le> c \<and> c \<le> 0x200A)"

definition trim :: "js_string \<Rightarrow> js_string" where
  "trim s = rev (dropWhile is_white_space (rev (dropWhile is_white_space s)))"

definition empty_after_trimming :: "js_string \<Rightarrow> bool" where
  "empty_after_trimming s = (trim s = [])"

text \<open>The two example submissions of the specification.\<close>

definition example_valid :: "(js_string \<times> json) list" where
  "example_valid =
     [(js ''streetAddress'', JString (js ''1 Main St'')),
      (js ''city'', JString (js ''Springfield'')),
      (js ''state'', JString (js ''IL'')),
      (js ''zipCode'', JString (js ''62704'')),
      (js ''country'', JString (js ''US'')),
      (js ''addressType'', JString (js ''work''))]"

definition example_invalid :: "(js_string \<times> json) list" where
  "example_invalid =
     [(js ''streetAddress'', JString []),
      (js ''city'', JString (js ''X'')),
      (js ''state'', JString (js ''Y'')),
      (js ''zipCode'', JString (js ''bad'')),
      (js ''country'', JString (js ''US''))]"

text \<open>
  Variations of the valid one: without \<open>country\<close>, without \<open>addressType\<close>, with an
  \<open>addressType\<close> outside the enumeration, with a \<open>streetAddress\<close> of one space, and
  with an empty \<open>city\<close>.
\<close>

definition example_without_country :: "(js_string \<times> json) list" where
  "example_without_country =
     [(js ''streetAddress'', JString (js ''1 Main St'')),
      (js ''city'', JString (js ''Springfield'')),
      (js ''state'', JString (js ''IL'')),
      (js ''zipCode'', JString (js ''62704''))]"

definition example_without_addressType :: "(js_string \<times> json) list" where
  "example_without_addressType =
     [(js ''streetAddress'', JString (js ''1 Main St'')),
      (js ''city'', JString (js ''Springfield'')),
      (js ''state'', JString (js ''IL'')),
      (js ''zipCode'', JString (js ''62704'')),
      (js ''country'', JString (js ''US''))]"

definition example_office :: "(js_string \<times> json) list" where
  "example_office =
     [(js ''streetAddress'', JString (js ''1 Main St'')),
      (js ''city'', JString (js ''Springfield'')),
      (js ''state'', JString (js ''IL'')),
      (js ''zipCode'', JString (js ''62704'')),
      (js ''country'', JString (js ''US'')),
      (js ''addressType'', JString (js ''office''))]"

definition example_blank_street :: "(js_string \<times> json) list" where
  "example_blank_street =
     [(js ''streetAddress'', JString (js '' '')),
      (js ''city'', JString (js ''Springfield'')),
      (js ''state'', JString (js ''IL'')),
      (js ''zipCode'', JString (js ''62704'')),
      (js ''country'', JString (js ''US''))]"

definition example_empty_city :: "(js_string \<times> json) list" where
  "example_empty_city =
     [(js ''streetAddress'', JString (js ''1 Main St'')),
      (js ''city'', JString []),
      (js ''state'', JString (js ''IL'')),
      (js ''zipCode'', JString (js ''62704'')),
      (js ''country'', JString (js ''US''))]"

text \<open>
  Two platforms. The first has no key and no network. The second has a key, and a
  provider that answers every call with status 200 and the payload
  \<open>{"status": "ZERO_RESULTS"}\<close>; its \<open>encodeURIComponent\<close> returns its argument,
  which is what the real one does on the letters it is used on here.
\<close>

definition platform_without_key :: platform where
  "platform_without_key =
     \<lparr>env_GOOGLE_PLACES_API_KEY = None, env_GOOGLE_API_KEY = None,
      fetch = (\<lambda>url. None), encodeURIComponent = (\<lambda>s. Some s)\<rparr>"

definition platform_zero_results :: platform where
  "platform_zero_results =
     \<lparr>env_GOOGLE_PLACES_API_KEY = Some (js ''key''), env_GOOGLE_API_KEY = None,
      fetch = (\<lambda>url. Some \<lparr>response_status = 200,
                              response_json = Some (JObject [(js ''status'', JString (js ''ZERO_RESULTS''))])\<rparr>),
      encodeURIComponent = (\<lambda>s. Some s)\<rparr>"

text \<open>
  Two more platforms with a key, whose provider answers every call with status 200 and
  the provider status \<open>"OK"\<close>: one with a single well-formed component, of type
  locality, and one with a single component that has no \<open>types\<close>.
\<close>

definition locality_payload :: json where
  "locality_payload =
     JObject
       [(js ''status'', JString (js ''OK'')),
        (js ''result'', JObject [(js ''address_components'', JArray
           [JObject [(js ''long_name'', JString (js ''Springfield'')),
                     (js ''short_name'', JString (js ''Springfield'')),
                     (js ''types'', JArray [JString (js ''locality''),
                                            JString (js ''political'')])]])])]"

definition untyped_component_payload :: json where
  "untyped_component_payload =
     JObject
       [(js ''status'', JString (js ''OK'')),
        (js ''result'', JObject [(js ''address_components'', JArray
           [JObject [(js ''long_name'', JString (js ''Springfield''))]])])]"

definition platform_locality :: platform where
  "platform_locality =
     \<lparr>env_GOOGLE_PLACES_API_KEY = Some (js ''key''), env_GOOGLE_API_KEY = None,
      fetch = (\<lambda>url. Some \<lparr>response_status = 200, response_json = Some locality_payload\<rparr>),
      encodeURIComponent = (\<lambda>s. Some s)\<rparr>"

definition platform_untyped_component :: platform where
  "platform_untyped_component =
     \<lparr>env_GOOGLE_PLACES_API_KEY = Some (js ''key''), env_GOOGLE_API_KEY = None,
      fetch = (\<lambda>url. Some \<lparr>response_status = 200,
                              response_json = Some untyped_component_payload\<rparr>),
      encodeURIComponent = (\<lambda>s. Some s)\<rparr>"

section \<open>Properties of the store\<close>

lemma Map_get_Map_set: "Map_get k (Map_set k v m) = Some v"
  by (induction m) auto

lemma Map_set_fresh: "k \<notin> fst ` set m \<Longrightarrow> Map_set k v m = m @ [(k, v)]"
  by (induction m) auto

lemma stored_fields:
  "insert_address.truncate (stored i x) = x"
  "address_id (stored i x) = i"
  "userId (stored i x) = None"
  by (simp_all add: stored_def insert_address.extend_def insert_address.truncate_def
      address.fields_def)

lemma createAddress_fresh:
  assumes "\<forall>k \<in> fst ` set (addresses st). k < currentAddressId st"
  shows "addresses (snd (createAddress x st)) =
           addresses st @ [(currentAddressId st, stored (currentAddressId st) x)]"
    and "currentAddressId (snd (createAddress x st)) = Suc (currentAddressId st)"
proof -
  from assms have "currentAddressId st \<notin> fst ` set (addresses st)"
    by blast
  then show "addresses (snd (createAddress x st)) =
           addresses st @ [(currentAddressId st, stored (currentAddressId st) x)]"
    by (simp add: createAddress_def Let_def stored_def Map_set_fresh)
  show "currentAddressId (snd (createAddress x st)) = Suc (currentAddressId st)"
    by (simp add: createAddress_def Let_def)
qed

lemma createAddresses_entries:
  assumes "\<forall>k \<in> fst ` set (addresses st). k < currentAddressId st"
  shows "addresses (createAddresses xs st) =
           addresses st @ map (\<lambda>(i, x). (i, stored i x)) (enumerate (currentAddressId st) xs)"
  using assms
proof (induction xs arbitrary: st)
  case Nil
  then show ?case by simp
next
  case (Cons x xs)
  let ?st = "snd (createAddress x st)"
  have inv: "\<forall>k \<in> fst ` set (addresses ?st). k < currentAddressId ?st"
    using Cons.prems by (auto simp: createAddress_fresh [OF Cons.prems])
  show ?case
    by (simp add: Cons.IH [OF inv] createAddress_fresh [OF Cons.prems])
qed

section \<open>Properties of the regular expression\<close>

lemma rmatch_Repeat_Suc:
  "rmatch (Repeat (Suc n) a) s i = concat (map (rmatch a s) (rmatch (Repeat n a) s i))"
  by simp

lemma rmatch_Repeat_Digit:
  "i \<le> length s \<Longrightarrow> rmatch (Repeat n Digit) s i =
     (if i + n \<le> length s \<and> list_all is_digit (take n (drop i s)) then [i + n] else [])"
proof (induction n)
  case 0
  then show ?case by simp
next
  case (Suc n)
  note IH = Suc.IH [OF Suc.prems]
  show ?case
  proof (cases "i + n < length s")
    case True
    then have "take (Suc n) (drop i s) = take n (drop i s) @ [s ! (i + n)]"
      by (simp add: take_Suc_conv_app_nth)
    with True show ?thesis
      unfolding rmatch_Repeat_Suc IH by simp
  next
    case False
    then show ?thesis
      unfolding rmatch_Repeat_Suc IH by auto
  qed
qed

lemma RegExp_test_Bol:
  "RegExp_test (Seq Bol r) s = (rmatch r s 0 \<noteq> [])"
proof -
  have "list_ex (\<lambda>i. rmatch (Seq Bol r) s i \<noteq> []) [0 ..< Suc (length s)] = (rmatch r s 0 \<noteq> [])"
    by (auto simp: list_ex_iff)
  then show ?thesis by (simp add: RegExp_test_def)
qed

lemma zip_regex_matches:
  "RegExp_test zip_regex s = five_or_five_plus_four s"
proof -
  let ?ext = "Seq (Lit 0x2D) (Repeat 4 Digit)"
  let ?d5 = "5 \<le> length s \<and> list_all is_digit (take 5 s)"
  let ?d4 = "10 \<le> length s \<and> s ! 5 = 0x2D \<and> list_all is_digit (take 4 (drop 6 s))"
  have ext: "rmatch ?ext s 5 = (if ?d4 then [10] else [])"
  proof (cases "5 < length s \<and> s ! 5 = 0x2D")
    case True
    then have "rmatch (Lit 0x2D) s 5 = [6]" and "6 \<le> length s"
      by simp_all
    then show ?thesis
      using True unfolding rmatch.simps(5) by (simp add: rmatch_Repeat_Digit del: rmatch.simps(7))
  next
    case False
    then have "rmatch (Lit 0x2D) s 5 = []"
      by auto
    then show ?thesis
      using False unfolding rmatch.simps(5) by auto
  qed
  have rest: "rmatch (Seq (Opt ?ext) Eol) s 5 =
                (if ?d4 \<and> length s = 10 then [10] else []) @ (if length s = 5 then [5] else [])"
  proof -
    have "rmatch (Seq (Opt ?ext) Eol) s 5 = concat (map (rmatch Eol s) (rmatch ?ext s 5 @ [5]))"
      by (subst rmatch.simps(5), subst rmatch.simps(6), rule refl)
    then show ?thesis
      unfolding ext by auto
  qed
  have "rmatch (Repeat 5 Digit) s 0 = (if ?d5 then [5] else [])"
    by (simp add: rmatch_Repeat_Digit del: rmatch.simps(7))
  then have whole: "rmatch (Seq (Repeat 5 Digit) (Seq (Opt ?ext) Eol)) s 0 =
                 (if ?d5 then (if ?d4 \<and> length s = 10 then [10] else [])
                                @ (if length s = 5 then [5] else [])
                  else [])"
    by (subst rmatch.simps(5)) (simp add: rest del: rmatch.simps)
  have "(rmatch (Seq (Repeat 5 Digit) (Seq (Opt ?ext) Eol)) s 0 \<noteq> []) =
          five_or_five_plus_four s"
    unfolding whole five_or_five_plus_four_def by auto
  then show ?thesis
    by (simp only: zip_regex_def RegExp_test_Bol)
qed

section \<open>Properties of the validation layer\<close>

lemma js_eq_iff: "js a = js b \<longleftrightarrow> a = b"
proof -
  have "inj (\<lambda>c::char. (word_of_nat (of_char c) :: code_unit))"
  proof (rule injI)
    fix c d :: char
    assume "(word_of_nat (of_char c) :: code_unit) = word_of_nat (of_char d)"
    then have "take_bit 16 (of_char c :: nat) = take_bit 16 (of_char d :: nat)"
      by (simp add: word_of_nat_eq_iff)
    moreover have "(of_char c :: nat) < 2 ^ 16" "(of_char d :: nat) < 2 ^ 16"
      by (rule less_trans [OF nat_of_char_less_256], simp)+
    ultimately have "(of_char c :: nat) = of_char d"
      by (simp add: take_bit_nat_eq_self)
    then show "c = d" by simp
  qed
  then show ?thesis
    unfolding js_def by (simp add: inj_map_eq_map)
qed

lemma ZodString_path: "e \<in> set (fst (ZodString checks p input)) \<Longrightarrow> path e = p"
proof -
  have "e \<in> set (run_check p s c) \<Longrightarrow> path e = p" for s c
    by (cases c) (auto split: if_splits)
  then show "e \<in> set (fst (ZodString checks p input)) \<Longrightarrow> path e = p"
    by (auto simp: ZodString_def split: option.splits json.splits)
qed

lemma ZodString_value: "snd (ZodString checks p input) = None \<Longrightarrow> fst (ZodString checks p input) \<noteq> []"
  by (auto simp: ZodString_def split: option.splits json.splits)

lemma ZodEnum_path: "e \<in> set (fst (ZodEnum vals p input)) \<Longrightarrow> path e = p"
  by (auto simp: ZodEnum_def split: option.splits json.splits if_splits)

lemma ZodEnum_value: "snd (ZodEnum vals p input) = None \<Longrightarrow> fst (ZodEnum vals p input) \<noteq> []"
  by (auto simp: ZodEnum_def split: option.splits json.splits if_splits)

lemma apartment_path: "e \<in> set (fst (apartment_schema p input)) \<Longrightarrow> path e = p"
  using ZodString_path [of e "[]" p input]
  by (auto simp: apartment_schema_def ZodOptional_def split: option.splits prod.splits)

lemma apartment_value: "snd (apartment_schema p input) = None \<Longrightarrow> fst (apartment_schema p input) \<noteq> []"
  using ZodString_value [of "[]" p input]
  by (auto simp: apartment_schema_def ZodOptional_def split: option.splits prod.splits)

lemma addressType_path: "e \<in> set (fst (addressType_schema p input)) \<Longrightarrow> path e = p"
  by (auto simp: addressType_schema_def ZodDefault_def dest: ZodEnum_path)

lemma addressType_value: "snd (addressType_schema p input) = None \<Longrightarrow> fst (addressType_schema p input) \<noteq> []"
  by (auto simp: addressType_schema_def ZodDefault_def dest: ZodEnum_value)

lemmas string_schema_defs =
  streetAddress_schema_def city_schema_def state_schema_def zipCode_schema_def country_schema_def

lemma field_paths:
  "e \<in> set (fst (field k streetAddress_schema data)) \<Longrightarrow> path e = [k]"
  "e \<in> set (fst (field k city_schema data)) \<Longrightarrow> path e = [k]"
  "e \<in> set (fst (field k state_schema data)) \<Longrightarrow> path e = [k]"
  "e \<in> set (fst (field k zipCode_schema data)) \<Longrightarrow> path e = [k]"
  "e \<in> set (fst (field k country_schema data)) \<Longrightarrow> path e = [k]"
  "e \<in> set (fst (field k apartment_schema data)) \<Longrightarrow> path e = [k]"
  "e \<in> set (fst (field k addressType_schema data)) \<Longrightarrow> path e = [k]"
  by (auto simp: field_def string_schema_defs dest: ZodString_path apartment_path addressType_path)

lemma field_values:
  "snd (field k streetAddress_schema data) = None \<Longrightarrow> fst (field k streetAddress_schema data) \<noteq> []"
  "snd (field k city_schema data) = None \<Longrightarrow> fst (field k city_schema data) \<noteq> []"
  "snd (field k state_schema data) = None \<Longrightarrow> fst (field k state_schema data) \<noteq> []"
  "snd (field k zipCode_schema data) = None \<Longrightarrow> fst (field k zipCode_schema data) \<noteq> []"
  "snd (field k country_schema data) = None \<Longrightarrow> fst (field k country_schema data) \<noteq> []"
  "snd (field k apartment_schema data) = None \<Longrightarrow> fst (field k apartment_schema data) \<noteq> []"
  "snd (field k addressType_schema data) = None \<Longrightarrow> fst (field k addressType_schema data) \<noteq> []"
  unfolding field_def string_schema_defs
  by (rule ZodString_value apartment_value addressType_value, assumption)+

lemma no_issues_value:
  assumes "insertAddressSchema_issues data = []"
  shows "\<exists>v. insertAddressSchema_value data = Some v"
proof -
  from assms have empty:
    "fst (field (js ''streetAddress'') streetAddress_schema data) = []"
    "fst (field (js ''city'') city_schema data) = []"
    "fst (field (js ''state'') state_schema data) = []"
    "fst (field (js ''zipCode'') zipCode_schema data) = []"
    "fst (field (js ''country'') country_schema data) = []"
    "fst (field (js ''apartment'') apartment_schema data) = []"
    "fst (field (js ''addressType'') addressType_schema data) = []"
    by (simp_all add: insertAddressSchema_issues_def)
  have
    "snd (field (js ''streetAddress'') streetAddress_schema data) \<noteq> None"
    "snd (field (js ''city'') city_schema data) \<noteq> None"
    "snd (field (js ''state'') state_schema data) \<noteq> None"
    "snd (field (js ''zipCode'') zipCode_schema data) \<noteq> None"
    "snd (field (js ''country'') country_schema data) \<noteq> None"
    "snd (field (js ''apartment'') apartment_schema data) \<noteq> None"
    "snd (field (js ''addressType'') addressType_schema data) \<noteq> None"
    using field_values [of _ data] empty by blast+
  then show ?thesis
    unfolding insertAddressSchema_value_def by fastforce
qed

lemma parse_object_Inl:
  "insertAddressSchema_parse (Some (JObject data)) = Inl errors \<longleftrightarrow>
     errors = insertAddressSchema_issues data \<and> insertAddressSchema_issues data \<noteq> []"
  using no_issues_value [of data]
  by (auto simp: insertAddressSchema_parse_def split: list.splits option.splits)

lemma parse_object_Inr:
  "insertAddressSchema_parse (Some (JObject data)) = Inr v \<longleftrightarrow>
     insertAddressSchema_value data = Some v \<and> insertAddressSchema_issues data = []"
  by (auto simp: insertAddressSchema_parse_def split: list.splits option.splits)

lemmas validation_defs =
  insertAddressSchema_parse_def insertAddressSchema_issues_def insertAddressSchema_value_def
  field_def property_def string_schema_defs apartment_schema_def addressType_schema_def
  ZodString_def ZodOptional_def ZodEnum_def ZodDefault_def zip_regex_matches
  five_or_five_plus_four_def is_digit_def js_def

lemma example_valid_parse:
  "insertAddressSchema_parse (Some (JObject example_valid)) =
     Inr \<lparr>streetAddress = js ''1 Main St'', city = js ''Springfield'', state = js ''IL'',
          zipCode = js ''62704'', country = js ''US'', apartment = None,
          addressType = js ''work''\<rparr>"
  by (simp add: example_valid_def validation_defs)

lemma example_invalid_parse:
  "insertAddressSchema_parse (Some (JObject example_invalid)) =
     Inl [\<lparr>code = too_small, path = [js ''streetAddress''],
           message = Message ''Street address is required''\<rparr>,
          \<lparr>code = invalid_string, path = [js ''zipCode''],
           message = Message ''Please enter a valid ZIP code''\<rparr>]"
  by (simp add: example_invalid_def validation_defs)

lemma example_without_country_parse:
  "insertAddressSchema_parse (Some (JObject example_without_country)) =
     Inl [\<lparr>code = invalid_type, path = [js ''country''], message = DefaultMessage\<rparr>]"
  by (simp add: example_without_country_def validation_defs)

lemma example_without_addressType_parse:
  "insertAddressSchema_parse (Some (JObject example_without_addressType)) =
     Inr \<lparr>streetAddress = js ''1 Main St'', city = js ''Springfield'', state = js ''IL'',
          zipCode = js ''62704'', country = js ''US'', apartment = None,
          addressType = js ''home''\<rparr>"
  by (simp add: example_without_addressType_def validation_defs)

lemma example_office_parse:
  "insertAddressSchema_parse (Some (JObject example_office)) =
     Inl [\<lparr>code = invalid_enum_value, path = [js ''addressType''], message = DefaultMessage\<rparr>]"
  by (simp add: example_office_def validation_defs)

lemma example_blank_street_parse:
  "insertAddressSchema_parse (Some (JObject example_blank_street)) =
     Inr \<lparr>streetAddress = js '' '', city = js ''Springfield'', state = js ''IL'',
          zipCode = js ''62704'', country = js ''US'', apartment = None,
          addressType = js ''home''\<rparr>"
  by (simp add: example_blank_street_def validation_defs)

lemma example_empty_city_parse:
  "insertAddressSchema_parse (Some (JObject example_empty_city)) =
     Inl [\<lparr>code = too_small, path = [js ''city''], message = Message ''City is required''\<rparr>]"
  by (simp add: example_empty_city_def validation_defs)

lemma blank_trim: "empty_after_trimming (js '' '')"
  by (simp add: empty_after_trimming_def trim_def is_white_space_def js_def)

lemma issues_at_path:
  "{e \<in> set (insertAddressSchema_issues data). path e = [js ''streetAddress'']} =
     set (fst (field (js ''streetAddress'') streetAddress_schema data))"
  "{e \<in> set (insertAddressSchema_issues data). path e = [js ''city'']} =
     set (fst (field (js ''city'') city_schema data))"
  "{e \<in> set (insertAddressSchema_issues data). path e = [js ''state'']} =
     set (fst (field (js ''state'') state_schema data))"
  "{e \<in> set (insertAddressSchema_issues data). path e = [js ''zipCode'']} =
     set (fst (field (js ''zipCode'') zipCode_schema data))"
  "{e \<in> set (insertAddressSchema_issues data). path e = [js ''country'']} =
     set (fst (field (js ''country'') country_schema data))"
  "{e \<in> set (insertAddressSchema_issues data). path e = [js ''apartment'']} =
     set (fst (field (js ''apartment'') apartment_schema data))"
  "{e \<in> set (insertAddressSchema_issues data). path e = [js ''addressType'']} =
     set (fst (field (js ''addressType'') addressType_schema data))"
  unfolding insertAddressSchema_issues_def
  by (auto simp: js_eq_iff dest: field_paths)

lemma parse_object_rejects:
  assumes "e \<in> set (insertAddressSchema_issues data)"
  shows "\<exists>errors. insertAddressSchema_parse (Some (JObject data)) = Inl errors \<and> e \<in> set errors"
proof -
  from assms have "insertAddressSchema_issues data \<noteq> []"
    by auto
  then have "insertAddressSchema_parse (Some (JObject data)) = Inl (insertAddressSchema_issues data)"
    by (simp add: parse_object_Inl)
  with assms show ?thesis by blast
qed

lemma parse_object_errors:
  assumes "insertAddressSchema_parse (Some (JObject data)) = Inl errors"
  shows "errors = insertAddressSchema_issues data"
  using assms by (simp add: parse_object_Inl)

lemma issue_in_field:
  "e \<in> set (fst (field (js ''streetAddress'') streetAddress_schema data)) \<Longrightarrow>
     e \<in> set (insertAddressSchema_issues data)"
  "e \<in> set (fst (field (js ''city'') city_schema data)) \<Longrightarrow>
     e \<in> set (insertAddressSchema_issues data)"
  "e \<in> set (fst (field (js ''state'') state_schema data)) \<Longrightarrow>
     e \<in> set (insertAddressSchema_issues data)"
  "e \<in> set (fst (field (js ''zipCode'') zipCode_schema data)) \<Longrightarrow>
     e \<in> set (insertAddressSchema_issues data)"
  "e \<in> set (fst (field (js ''country'') country_schema data)) \<Longrightarrow>
     e \<in> set (insertAddressSchema_issues data)"
  "e \<in> set (fst (field (js ''apartment'') apartment_schema data)) \<Longrightarrow>
     e \<in> set (insertAddressSchema_issues data)"
  "e \<in> set (fst (field (js ''addressType'') addressType_schema data)) \<Longrightarrow>
     e \<in> set (insertAddressSchema_issues data)"
  by (simp_all add: insertAddressSchema_issues_def)

lemma zipCode_field:
  assumes "property data (js ''zipCode'') = Some (JString z)"
  shows "field (js ''zipCode'') zipCode_schema data =
           ((if z = [] then [\<lparr>code = too_small, path = [js ''zipCode''],
                               message = Message ''ZIP code is required''\<rparr>] else [])
            @ (if \<not> RegExp_test zip_regex z
               then [\<lparr>code = invalid_string, path = [js ''zipCode''],
                      message = Message ''Please enter a valid ZIP code''\<rparr>] else []), Some z)"
  using assms by (simp add: field_def zipCode_schema_def ZodString_def)

lemma zip_regex_nonempty: "RegExp_test zip_regex z \<Longrightarrow> z \<noteq> []"
  by (auto simp: zip_regex_matches five_or_five_plus_four_def)

lemma parse_object_values:
  assumes "insertAddressSchema_parse (Some (JObject data)) = Inr v"
  shows "snd (field (js ''streetAddress'') streetAddress_schema data) = Some (streetAddress v)"
    and "snd (field (js ''city'') city_schema data) = Some (city v)"
    and "snd (field (js ''state'') state_schema data) = Some (state v)"
    and "snd (field (js ''zipCode'') zipCode_schema data) = Some (zipCode v)"
    and "snd (field (js ''country'') country_schema data) = Some (country v)"
    and "snd (field (js ''apartment'') apartment_schema data) = Some (apartment v)"
    and "snd (field (js ''addressType'') addressType_schema data) = Some (addressType v)"
  using assms
  by (auto simp: parse_object_Inr insertAddressSchema_value_def split: Option.bind_splits)

lemma ZodString_Some:
  "snd (ZodString checks p input) = Some s \<longleftrightarrow> input = Some (JString s)"
  by (auto simp: ZodString_def split: option.splits json.splits)

lemma required_fields:
  "property data (js ''streetAddress'') = Some (JString s) \<Longrightarrow>
     fst (field (js ''streetAddress'') streetAddress_schema data) =
       (if s = [] then [\<lparr>code = too_small, path = [js ''streetAddress''],
                          message = Message ''Street address is required''\<rparr>] else [])"
  "property data (js ''city'') = Some (JString s) \<Longrightarrow>
     fst (field (js ''city'') city_schema data) =
       (if s = [] then [\<lparr>code = too_small, path = [js ''city''],
                          message = Message ''City is required''\<rparr>] else [])"
  "property data (js ''state'') = Some (JString s) \<Longrightarrow>
     fst (field (js ''state'') state_schema data) =
       (if s = [] then [\<lparr>code = too_small, path = [js ''state''],
                          message = Message ''State is required''\<rparr>] else [])"
  "property data (js ''country'') = Some (JString s) \<Longrightarrow>
     fst (field (js ''country'') country_schema data) =
       (if s = [] then [\<lparr>code = too_small, path = [js ''country''],
                          message = Message ''Country is required''\<rparr>] else [])"
  by (simp_all add: field_def ZodString_def string_schema_defs)

lemma issues_at_key:
  assumes "{e \<in> set issues. path e = [k]} = set (if s = [] then [e0] else [])"
    and "path e0 = [k]" and "code e0 = too_small"
  shows "(s = [] \<longrightarrow> (\<exists>e \<in> set issues. path e = [k] \<and> code e = too_small))
       \<and> (s \<noteq> [] \<longrightarrow> (\<forall>e \<in> set issues. path e \<noteq> [k]))"
proof (cases "s = []")
  case True
  with assms(1) have "e0 \<in> {e \<in> set issues. path e = [k]}"
    by simp
  with assms(2,3) True show ?thesis
    by blast
next
  case False
  with assms(1) have "{e \<in> set issues. path e = [k]} = {}"
    by simp
  with False show ?thesis
    by blast
qed

lemma required_text_issues:
  assumes "k \<in> {js ''streetAddress'', js ''city'', js ''state'', js ''country''}"
    and "property data k = Some (JString s)"
  shows "(s = [] \<longrightarrow>
            (\<exists>e \<in> set (insertAddressSchema_issues data). path e = [k] \<and> code e = too_small))
       \<and> (s \<noteq> [] \<longrightarrow> (\<forall>e \<in> set (insertAddressSchema_issues data). path e \<noteq> [k]))"
proof -
  consider "k = js ''streetAddress''" | "k = js ''city''" | "k = js ''state''" | "k = js ''country''"
    using assms(1) by blast
  then show ?thesis
  proof cases
    case 1
    show ?thesis
      unfolding 1
      by (rule issues_at_key [OF issues_at_path(1) [of data,
              unfolded required_fields(1) [OF assms(2) [unfolded 1]]]]) simp_all
  next
    case 2
    show ?thesis
      unfolding 2
      by (rule issues_at_key [OF issues_at_path(2) [of data,
              unfolded required_fields(2) [OF assms(2) [unfolded 2]]]]) simp_all
  next
    case 3
    show ?thesis
      unfolding 3
      by (rule issues_at_key [OF issues_at_path(3) [of data,
              unfolded required_fields(3) [OF assms(2) [unfolded 3]]]]) simp_all
  next
    case 4
    show ?thesis
      unfolding 4
      by (rule issues_at_key [OF issues_at_path(5) [of data,
              unfolded required_fields(4) [OF assms(2) [unfolded 4]]]]) simp_all
  qed
qed

lemma addressType_field_absent:
  assumes "property data (js ''addressType'') = None"
  shows "field (js ''addressType'') addressType_schema data = ([], Some (js ''home''))"
  using assms by (simp add: field_def addressType_schema_def ZodDefault_def ZodEnum_def)

lemma addressType_field_outside:
  assumes "property data (js ''addressType'') = Some x"
    and "x \<notin> {JString (js ''home''), JString (js ''work''), JString (js ''other'')}"
  shows "\<exists>e \<in> set (fst (field (js ''addressType'') addressType_schema data)).
           path e = [js ''addressType'']"
  using assms
  by (cases x) (auto simp: field_def addressType_schema_def ZodDefault_def ZodEnum_def)

section \<open>Properties of the routes\<close>

lemma suggestions_of_data_status:
  "suggestions_of_data data = Inr response \<Longrightarrow> status response = 200"
  by (auto simp: suggestions_of_data_def and_then_def split: sum.splits if_splits)

lemma details_of_data_status:
  "details_of_data data = Inr response \<Longrightarrow>
     status response = 200 \<and> read (Some data) (js ''status'') = Inr (Some (JString (js ''OK'')))"
  by (auto simp: details_of_data_def and_then_def
      split: sum.splits if_splits option.splits json.splits)

lemma details_of_data_not_OK:
  "read (Some data) (js ''status'') \<noteq> Inr (Some (JString (js ''OK''))) \<Longrightarrow>
     \<exists>e. details_of_data data = Inl e"
  by (cases "details_of_data data") (auto dest: details_of_data_status)

lemma platform_zero_results_key: "GOOGLE_API_KEY platform_zero_results = js ''key''"
  by (simp add: GOOGLE_API_KEY_def platform_zero_results_def js_def)

lemma component_ok_object:
  assumes "component_ok c"
  obtains props t where "c = JObject props" "property props (js ''types'') = Some t"
    "(\<exists>ts. t = JArray ts) \<or> (\<exists>s. t = JString s)"
  using assms
  by (cases c) (auto simp: component_ok_def split: option.splits json.splits)

lemma component_step_ok:
  assumes "component_ok c"
  shows "\<exists>d'. component_step d c = Inr d'"
proof -
  from assms obtain props t where c: "c = JObject props"
    and t: "property props (js ''types'') = Some t"
    and k: "(\<exists>ts. t = JArray ts) \<or> (\<exists>s. t = JString s)"
    by (rule component_ok_object)
  from k have inc: "\<exists>b. js_includes (Some t) x = Inr b" for x
    by auto
  have rd: "read (Some c) key = Inr (property props key)" for key
    by (simp add: c)
  obtain b1 where b1: "js_includes (Some t) (js ''street_number'') = Inr b1" using inc by blast
  obtain b2 where b2: "js_includes (Some t) (js ''route'') = Inr b2" using inc by blast
  obtain b3 where b3: "js_includes (Some t) (js ''locality'') = Inr b3" using inc by blast
  obtain b4 where b4: "js_includes (Some t) (js ''administrative_area_level_1'') = Inr b4" using inc by blast
  obtain b5 where b5: "js_includes (Some t) (js ''postal_code'') = Inr b5" using inc by blast
  obtain b6 where b6: "js_includes (Some t) (js ''country'') = Inr b6" using inc by blast
  show ?thesis
    unfolding component_step_def rd t and_then_def
    by (simp add: b1 b2 b3 b4 b5 b6)
qed

lemma component_step_not_ok:
  assumes "\<not> component_ok c"
  shows "\<exists>e. component_step d c = Inl e"
proof (cases "read (Some c) (js ''types'')")
  case (Inl e)
  then show ?thesis
    by (simp add: component_step_def and_then_def)
next
  case (Inr t)
  with assms have "js_includes t (js ''street_number'') = Inl TypeError"
    by (cases t; cases "the t") (auto simp: component_ok_def)
  with Inr show ?thesis
    by (simp add: component_step_def and_then_def)
qed

lemma forEach_component_step:
  "(\<exists>d'. forEach component_step cs d = Inr d') \<longleftrightarrow> list_all component_ok cs"
proof (induction cs arbitrary: d)
  case Nil
  then show ?case by simp
next
  case (Cons c cs)
  show ?case
  proof (cases "component_ok c")
    case True
    from component_step_ok [OF True, of d] obtain d1 where "component_step d c = Inr d1"
      by blast
    with True Cons.IH [of d1] show ?thesis
      by (simp add: and_then_def)
  next
    case False
    from component_step_not_ok [OF False, of d] obtain e where "component_step d c = Inl e"
      by blast
    with False show ?thesis
      by (simp add: and_then_def)
  qed
qed

lemma details_of_data_succeeds:
  "(\<exists>r. details_of_data data = Inr r) \<longleftrightarrow>
     read (Some data) (js ''status'') = Inr (Some (JString (js ''OK'')))
     \<and> address_components_ok data"
proof (cases "read (Some data) (js ''status'') = Inr (Some (JString (js ''OK'')))")
  case False
  with details_of_data_not_OK [OF False] show ?thesis
    by auto
next
  case True
  then obtain props where data: "data = JObject props"
    by (cases data) auto
  let ?ac = "read_opt (property props (js ''result'')) (js ''address_components'')"
  show ?thesis
  proof (cases "\<exists>cs. ?ac = Some (JArray cs)")
    case array: True
    then obtain cs where cs: "?ac = Some (JArray cs)"
      by blast
    have "details_of_data data =
            and_then (forEach component_step cs no_details)
              (\<lambda>details. Inr \<lparr>status = 200, body = Details details\<rparr>)"
      using True by (simp add: details_of_data_def and_then_def data cs)
    then have "(\<exists>r. details_of_data data = Inr r) \<longleftrightarrow>
                 (\<exists>d'. forEach component_step cs no_details = Inr d')"
      by (cases "forEach component_step cs no_details") (simp_all add: and_then_def)
    with True show ?thesis
      by (simp add: forEach_component_step address_components_ok_def data cs)
  next
    case other: False
    show ?thesis
    proof (cases "truthy ?ac")
      case truthy: True
      with other have "details_of_data data = Inl TypeError"
        using True
        by (cases ?ac; cases "the ?ac")
          (auto simp: details_of_data_def and_then_def data)
      moreover from truthy other have "\<not> address_components_ok data"
        by (cases ?ac; cases "the ?ac") (auto simp: address_components_ok_def data)
      ultimately show ?thesis by simp
    next
      case falsy: False
      then have "details_of_data data = Inr \<lparr>status = 200, body = Details no_details\<rparr>"
        using True by (simp add: details_of_data_def and_then_def data)
      moreover from falsy other have "address_components_ok data"
        by (cases ?ac; cases "the ?ac") (auto simp: address_components_ok_def data)
      ultimately show ?thesis using True by simp
    qed
  qed
qed

lemma platform_locality_key: "GOOGLE_API_KEY platform_locality = js ''key''"
  by (simp add: GOOGLE_API_KEY_def platform_locality_def js_def)

lemma platform_untyped_component_key: "GOOGLE_API_KEY platform_untyped_component = js ''key''"
  by (simp add: GOOGLE_API_KEY_def platform_untyped_component_def js_def)

lemma locality_payload_status:
  "read (Some locality_payload) (js ''status'') = Inr (Some (JString (js ''OK'')))"
  by (simp add: locality_payload_def property_def)

lemma untyped_component_payload_status:
  "read (Some untyped_component_payload) (js ''status'') = Inr (Some (JString (js ''OK'')))"
  by (simp add: untyped_component_payload_def property_def)

lemma locality_payload_components: "address_components_ok locality_payload"
  by (simp add: locality_payload_def address_components_ok_def component_ok_def property_def
      js_eq_iff)

lemma locality_payload_details:
  "details_of_data locality_payload =
     Inr \<lparr>status = 200,
          body = Details (no_details\<lparr>locality := Some (JString (js ''Springfield''))\<rparr>)\<rparr>"
  by (simp add: locality_payload_def details_of_data_def component_step_def and_then_def
      property_def js_eq_iff)

lemma untyped_component_payload_details:
  "details_of_data untyped_component_payload = Inl TypeError"
  by (simp add: untyped_component_payload_def details_of_data_def component_step_def
      and_then_def property_def js_eq_iff)

section \<open>The claims about the store\<close>

text \<open>
  Claim C1. For every submission that passes validation, createAddress on any store
  followed by getAddressById with the identifier of the record returned gives that
  record back: it is the validated input extended by the identifier the store
  assigned (its counter before the call) and by an absent userId.
\<close>

theorem createAddress_then_getAddressById:
  assumes "insertAddressSchema_parse req_body = Inr validatedData"
    and "createAddress validatedData storage = (a, storage')"
  shows "getAddressById (address_id a) storage' = Some a
       \<and> a = stored (currentAddressId storage) validatedData
       \<and> insert_address.truncate a = validatedData
       \<and> address_id a = currentAddressId storage
       \<and> userId a = None"
proof -
  from assms(2) have a: "a = stored (currentAddressId storage) validatedData"
    and st: "addresses storage' = Map_set (currentAddressId storage) a (addresses storage)"
    by (auto simp: createAddress_def Let_def stored_def)
  have "getAddressById (address_id a) storage' = Some a"
    unfolding getAddressById_def st by (simp add: a stored_fields Map_get_Map_set)
  with a show ?thesis
    by (simp add: stored_fields)
qed

text \<open>
  The valid example of the specification, created on a fresh store and read back with
  identifier 1.
\<close>

theorem createAddress_then_getAddressById_witness:
  "insertAddressSchema_parse (Some (JObject example_valid)) =
     Inr \<lparr>streetAddress = js ''1 Main St'', city = js ''Springfield'', state = js ''IL'',
          zipCode = js ''62704'', country = js ''US'', apartment = None,
          addressType = js ''work''\<rparr>
   \<and> getAddressById 1
       (snd (createAddress
          \<lparr>streetAddress = js ''1 Main St'', city = js ''Springfield'', state = js ''IL'',
           zipCode = js ''62704'', country = js ''US'', apartment = None,
           addressType = js ''work''\<rparr> new_MemStorage))
     = Some \<lparr>streetAddress = js ''1 Main St'', city = js ''Springfield'', state = js ''IL'',
          zipCode = js ''62704'', country = js ''US'', apartment = None,
          addressType = js ''work'', address_id = 1, userId = None\<rparr>"
proof -
  let ?v = "\<lparr>streetAddress = js ''1 Main St'', city = js ''Springfield'', state = js ''IL'',
        zipCode = js ''62704'', country = js ''US'', apartment = None,
        addressType = js ''work''\<rparr>"
  let ?a = "\<lparr>streetAddress = js ''1 Main St'', city = js ''Springfield'', state = js ''IL'',
          zipCode = js ''62704'', country = js ''US'', apartment = None,
          addressType = js ''work'', address_id = 1, userId = None\<rparr>"
  have c: "createAddress ?v new_MemStorage =
            (?a, \<lparr>users = [], addresses = [(1, ?a)], currentUserId = 1, currentAddressId = 2\<rparr>)"
    by (simp add: createAddress_def Let_def new_MemStorage_def insert_address.extend_def
        address.fields_def)
  from createAddress_then_getAddressById [OF example_valid_parse c, THEN conjunct1]
  have "getAddressById 1 (snd (createAddress ?v new_MemStorage)) = Some ?a"
    by (simp add: c)
  with example_valid_parse show ?thesis
    by (rule conjI)
qed

text \<open>
  Claim C9. After any sequence of createAddress calls on a fresh store, getAddresses returns
  one record per call, in the order of the calls: the records are the inputs, in
  order, each with its identifier and no userId, and the identifiers are 1, 2, ..., N.
  So there are exactly as many records as calls, and their identifiers are pairwise
  distinct and strictly increasing in creation order.
\<close>

theorem getAddresses_after_creations:
  "getAddresses (createAddresses xs new_MemStorage) =
     map (\<lambda>(i, x). stored i x) (enumerate 1 xs)
   \<and> length (getAddresses (createAddresses xs new_MemStorage)) = length xs
   \<and> map insert_address.truncate (getAddresses (createAddresses xs new_MemStorage)) = xs
   \<and> map userId (getAddresses (createAddresses xs new_MemStorage)) = replicate (length xs) None
   \<and> map address_id (getAddresses (createAddresses xs new_MemStorage)) = [1 ..< Suc (length xs)]
   \<and> distinct (map address_id (getAddresses (createAddresses xs new_MemStorage)))
   \<and> sorted_wrt (<) (map address_id (getAddresses (createAddresses xs new_MemStorage)))"
proof -
  have inv: "\<forall>k \<in> fst ` set (addresses new_MemStorage). k < currentAddressId new_MemStorage"
    by (simp add: new_MemStorage_def)
  have "addresses (createAddresses xs new_MemStorage) =
          map (\<lambda>(i, x). (i, stored i x)) (enumerate 1 xs)"
    unfolding createAddresses_entries [OF inv] by (simp add: new_MemStorage_def)
  then have all: "getAddresses (createAddresses xs new_MemStorage) =
               map (\<lambda>(i, x). stored i x) (enumerate 1 xs)"
    by (simp add: getAddresses_def Map_values_def case_prod_unfold comp_def)
  have "map address_id (map (\<lambda>(i, x). stored i x) (enumerate 1 xs)) = map fst (enumerate 1 xs)"
    by (simp add: case_prod_unfold comp_def stored_fields)
  then have ids: "map address_id (map (\<lambda>(i, x). stored i x) (enumerate 1 xs)) =
               [1 ..< Suc (length xs)]"
    by simp
  have "map insert_address.truncate (map (\<lambda>(i, x). stored i x) (enumerate 1 xs)) =
          map snd (enumerate 1 xs)"
    by (simp add: case_prod_unfold comp_def stored_fields)
  then have ins: "map insert_address.truncate (map (\<lambda>(i, x). stored i x) (enumerate 1 xs)) = xs"
    by simp
  have uid: "map userId (map (\<lambda>(i, x). stored i x) (enumerate 1 xs)) = replicate (length xs) None"
    by (simp add: case_prod_unfold comp_def stored_fields map_replicate_const)
  have len: "length (map (\<lambda>(i, x). stored i x) (enumerate 1 xs)) = length xs"
    by simp
  show ?thesis
    unfolding all ids ins uid len using sorted_wrt_upt [of 1 "Suc (length xs)"] by simp
qed

section \<open>The claims about validation\<close>

text \<open>
  Claim C2. When the body of a submission fails validation, POST /api/addresses answers
  400 with the whole list of issues and leaves the store as it was. The list is never
  empty; for an object it is the issues of the seven keys one after the other, so no
  key hides the issues of another; and on a zipCode string both checks run, the one
  for the length and the one for the pattern, each reporting its own issue.
\<close>

theorem post_addresses_reports_all_violations:
  assumes "insertAddressSchema_parse req_body = Inl errors"
  shows "post_addresses req_body storage =
           (\<lparr>status = 400, body = ValidationFailure errors\<rparr>, storage)
       \<and> errors \<noteq> []
       \<and> (\<forall>data. req_body = Some (JObject data) \<longrightarrow>
            errors =
              fst (field (js ''streetAddress'') streetAddress_schema data)
              @ fst (field (js ''city'') city_schema data)
              @ fst (field (js ''state'') state_schema data)
              @ fst (field (js ''zipCode'') zipCode_schema data)
              @ fst (field (js ''country'') country_schema data)
              @ fst (field (js ''apartment'') apartment_schema data)
              @ fst (field (js ''addressType'') addressType_schema data))
       \<and> (\<forall>data z. req_body = Some (JObject data) \<longrightarrow>
            property data (js ''zipCode'') = Some (JString z) \<longrightarrow>
              (length z < 1 \<longrightarrow>
                 \<lparr>code = too_small, path = [js ''zipCode''],
                  message = Message ''ZIP code is required''\<rparr> \<in> set errors)
            \<and> (\<not> RegExp_test zip_regex z \<longrightarrow>
                 \<lparr>code = invalid_string, path = [js ''zipCode''],
                  message = Message ''Please enter a valid ZIP code''\<rparr> \<in> set errors))"
proof -
  have response: "post_addresses req_body storage =
           (\<lparr>status = 400, body = ValidationFailure errors\<rparr>, storage)"
    using assms by (simp add: post_addresses_def)
  have nonempty: "errors \<noteq> []"
  proof (cases "\<exists>data. req_body = Some (JObject data)")
    case True
    with assms show ?thesis by (auto simp: parse_object_Inl)
  next
    case False
    with assms show ?thesis
      by (auto simp: insertAddressSchema_parse_def split: option.splits json.splits)
  qed
  have all: "errors = insertAddressSchema_issues data" if "req_body = Some (JObject data)" for data
    using assms that by (simp add: parse_object_Inl)
  have zip: "(length z < 1 \<longrightarrow>
                 \<lparr>code = too_small, path = [js ''zipCode''],
                  message = Message ''ZIP code is required''\<rparr> \<in> set errors)
            \<and> (\<not> RegExp_test zip_regex z \<longrightarrow>
                 \<lparr>code = invalid_string, path = [js ''zipCode''],
                  message = Message ''Please enter a valid ZIP code''\<rparr> \<in> set errors)"
    if "req_body = Some (JObject data)" "property data (js ''zipCode'') = Some (JString z)"
    for data z
  proof -
    have "fst (field (js ''zipCode'') zipCode_schema data) =
            (if length z < 1 then [\<lparr>code = too_small, path = [js ''zipCode''],
                  message = Message ''ZIP code is required''\<rparr>] else [])
            @ (if \<not> RegExp_test zip_regex z then [\<lparr>code = invalid_string, path = [js ''zipCode''],
                  message = Message ''Please enter a valid ZIP code''\<rparr>] else [])"
      using that(2) by (simp add: field_def zipCode_schema_def ZodString_def)
    then show ?thesis
      unfolding all [OF that(1)] insertAddressSchema_issues_def by auto
  qed
  from response nonempty all zip show ?thesis
    unfolding insertAddressSchema_issues_def by blast
qed

text \<open>
  The invalid example of the specification: 400 with one issue for streetAddress and
  one for zipCode, on a store that stays fresh.
\<close>

theorem post_addresses_reports_all_violations_witness:
  "post_addresses (Some (JObject example_invalid)) new_MemStorage =
     (\<lparr>status = 400,
       body = ValidationFailure
         [\<lparr>code = too_small, path = [js ''streetAddress''],
           message = Message ''Street address is required''\<rparr>,
          \<lparr>code = invalid_string, path = [js ''zipCode''],
           message = Message ''Please enter a valid ZIP code''\<rparr>]\<rparr>, new_MemStorage)"
  using post_addresses_reports_all_violations [OF example_invalid_parse, of new_MemStorage]
  by simp

text \<open>
  Claim C3. The pattern accepts exactly the strings of five digits and of five digits,
  a hyphen and four digits. A submission whose zipCode is a string outside the
  pattern (the empty string is one) is rejected with an issue whose path is zipCode;
  a zipCode inside the pattern passes the zipCode rule, and no issue of the
  submission has the path zipCode.
\<close>

theorem zipCode_pattern_rule:
  assumes "property data (js ''zipCode'') = Some (JString z)"
  shows "(RegExp_test zip_regex z \<longleftrightarrow> five_or_five_plus_four z)
       \<and> (\<not> RegExp_test zip_regex z \<longrightarrow>
            (\<exists>errors. insertAddressSchema_parse (Some (JObject data)) = Inl errors
                \<and> \<lparr>code = invalid_string, path = [js ''zipCode''],
                    message = Message ''Please enter a valid ZIP code''\<rparr> \<in> set errors))
       \<and> (RegExp_test zip_regex z \<longrightarrow>
            field (js ''zipCode'') zipCode_schema data = ([], Some z)
            \<and> (\<forall>e \<in> set (insertAddressSchema_issues data). path e \<noteq> [js ''zipCode'']))"
proof (intro conjI impI)
  show "RegExp_test zip_regex z \<longleftrightarrow> five_or_five_plus_four z"
    by (rule zip_regex_matches)
next
  assume "\<not> RegExp_test zip_regex z"
  then have "\<lparr>code = invalid_string, path = [js ''zipCode''],
               message = Message ''Please enter a valid ZIP code''\<rparr>
             \<in> set (fst (field (js ''zipCode'') zipCode_schema data))"
    by (simp add: zipCode_field [OF assms])
  then show "\<exists>errors. insertAddressSchema_parse (Some (JObject data)) = Inl errors
                \<and> \<lparr>code = invalid_string, path = [js ''zipCode''],
                    message = Message ''Please enter a valid ZIP code''\<rparr> \<in> set errors"
    by (intro parse_object_rejects issue_in_field)
next
  assume m: "RegExp_test zip_regex z"
  then show ok: "field (js ''zipCode'') zipCode_schema data = ([], Some z)"
    using zip_regex_nonempty [OF m] by (simp add: zipCode_field [OF assms])
  then show "\<forall>e \<in> set (insertAddressSchema_issues data). path e \<noteq> [js ''zipCode'']"
    using issues_at_path(4) [of data] by auto
qed

text \<open>
  The zipCode "bad" and the empty zipCode are rejected, the zipCode "62704" passes
  the rule.
\<close>

theorem zipCode_pattern_rule_witness:
  "(\<exists>errors. insertAddressSchema_parse (Some (JObject example_invalid)) = Inl errors
      \<and> \<lparr>code = invalid_string, path = [js ''zipCode''],
          message = Message ''Please enter a valid ZIP code''\<rparr> \<in> set errors)
   \<and> (\<exists>errors. insertAddressSchema_parse (Some (JObject [(js ''zipCode'', JString [])])) = Inl errors
      \<and> \<lparr>code = invalid_string, path = [js ''zipCode''],
          message = Message ''Please enter a valid ZIP code''\<rparr> \<in> set errors)
   \<and> field (js ''zipCode'') zipCode_schema example_valid = ([], Some (js ''62704''))"
proof -
  have bad: "property example_invalid (js ''zipCode'') = Some (JString (js ''bad''))"
    by (simp add: example_invalid_def property_def js_def)
  have "\<not> RegExp_test zip_regex (js ''bad'')"
    by (simp add: zip_regex_matches five_or_five_plus_four_def js_def)
  with zipCode_pattern_rule [OF bad] have 1:
    "\<exists>errors. insertAddressSchema_parse (Some (JObject example_invalid)) = Inl errors
      \<and> \<lparr>code = invalid_string, path = [js ''zipCode''],
          message = Message ''Please enter a valid ZIP code''\<rparr> \<in> set errors"
    by blast
  have empty: "property [(js ''zipCode'', JString [])] (js ''zipCode'') = Some (JString [])"
    by (simp add: property_def)
  have "\<not> RegExp_test zip_regex []"
    by (simp add: zip_regex_matches five_or_five_plus_four_def)
  with zipCode_pattern_rule [OF empty] have 2:
    "\<exists>errors. insertAddressSchema_parse (Some (JObject [(js ''zipCode'', JString [])])) = Inl errors
      \<and> \<lparr>code = invalid_string, path = [js ''zipCode''],
          message = Message ''Please enter a valid ZIP code''\<rparr> \<in> set errors"
    by blast
  have good: "property example_valid (js ''zipCode'') = Some (JString (js ''62704''))"
    by (simp add: example_valid_def property_def js_def)
  have "RegExp_test zip_regex (js ''62704'')"
    by (simp add: zip_regex_matches five_or_five_plus_four_def js_def is_digit_def)
  with zipCode_pattern_rule [OF good] have 3:
    "field (js ''zipCode'') zipCode_schema example_valid = ([], Some (js ''62704''))"
    by blast
  from 1 2 3 show ?thesis by blast
qed

text \<open>
  Claim C4 as stated fails: the schema replaces the optional country of the table by
  \<open>z.string().min(1, "Country is required")\<close>, which has no default. The valid
  example without its country is rejected, with one issue for country.
\<close>

theorem country_omitted_counterexample:
  "property example_without_country (js ''country'') = None
   \<and> insertAddressSchema_parse (Some (JObject example_without_country)) =
       Inl [\<lparr>code = invalid_type, path = [js ''country''], message = DefaultMessage\<rparr>]"
  using example_without_country_parse
  by (simp add: example_without_country_def property_def js_def)

text \<open>
  Claim C4, amended. A submission in which country is omitted is rejected with an
  issue of type invalid_type for country; and whenever validation succeeds, the
  country of the normalized record is the non-empty string that was submitted, so
  validation never fills in "US".
\<close>

theorem country_is_required:
  "(property data (js ''country'') = None \<longrightarrow>
      (\<exists>errors. insertAddressSchema_parse (Some (JObject data)) = Inl errors
         \<and> \<lparr>code = invalid_type, path = [js ''country''], message = DefaultMessage\<rparr>
             \<in> set errors))
   \<and> (\<forall>v. insertAddressSchema_parse (Some (JObject data)) = Inr v \<longrightarrow>
         property data (js ''country'') = Some (JString (country v)) \<and> country v \<noteq> [])"
proof (intro conjI impI allI)
  assume "property data (js ''country'') = None"
  then have "\<lparr>code = invalid_type, path = [js ''country''], message = DefaultMessage\<rparr>
               \<in> set (fst (field (js ''country'') country_schema data))"
    by (simp add: field_def country_schema_def ZodString_def)
  then show "\<exists>errors. insertAddressSchema_parse (Some (JObject data)) = Inl errors
         \<and> \<lparr>code = invalid_type, path = [js ''country''], message = DefaultMessage\<rparr>
             \<in> set errors"
    by (intro parse_object_rejects issue_in_field)
next
  fix v
  assume ok: "insertAddressSchema_parse (Some (JObject data)) = Inr v"
  from parse_object_values(5) [OF ok]
  show supplied: "property data (js ''country'') = Some (JString (country v))"
    by (simp add: field_def country_schema_def ZodString_Some)
  from ok have "fst (field (js ''country'') country_schema data) = []"
    by (simp add: parse_object_Inr insertAddressSchema_issues_def)
  then show "country v \<noteq> []"
    by (simp add: required_fields(4) [OF supplied] split: if_splits)
qed

text \<open>
  The example without country is rejected; the valid example was submitted with the
  country "US" that its normalized record has.
\<close>

theorem country_is_required_witness:
  "(\<exists>errors. insertAddressSchema_parse (Some (JObject example_without_country)) = Inl errors
         \<and> \<lparr>code = invalid_type, path = [js ''country''], message = DefaultMessage\<rparr>
             \<in> set errors)
   \<and> property example_valid (js ''country'') = Some (JString (js ''US''))"
proof -
  have "property example_without_country (js ''country'') = None"
    by (simp add: example_without_country_def property_def js_def)
  with country_is_required [of example_without_country] have 1:
    "\<exists>errors. insertAddressSchema_parse (Some (JObject example_without_country)) = Inl errors
         \<and> \<lparr>code = invalid_type, path = [js ''country''], message = DefaultMessage\<rparr>
             \<in> set errors"
    by blast
  from country_is_required [of example_valid] example_valid_parse
  have "property example_valid (js ''country'') = Some (JString (js ''US''))"
    by simp
  with 1 show ?thesis by (rule conjI)
qed

text \<open>
  Claim C5 as stated fails: the schema checks the length of the string as submitted
  and never trims. A streetAddress of one space is empty after trimming, and the
  submission passes validation with that streetAddress.
\<close>

theorem whitespace_only_counterexample:
  "property example_blank_street (js ''streetAddress'') = Some (JString (js '' ''))
   \<and> empty_after_trimming (js '' '')
   \<and> insertAddressSchema_parse (Some (JObject example_blank_street)) =
       Inr \<lparr>streetAddress = js '' '', city = js ''Springfield'', state = js ''IL'',
            zipCode = js ''62704'', country = js ''US'', apartment = None,
            addressType = js ''home''\<rparr>"
  using example_blank_street_parse blank_trim
  by (simp add: example_blank_street_def property_def js_def)

text \<open>
  Claim C5, amended. For each of streetAddress, city, state and country, a submission
  that supplies a string for the field is rejected with an issue for that field
  exactly when the string is empty (of length 0); the issue is then of type
  too_small. Nothing is trimmed: a string of white space is not empty.
\<close>

theorem required_text_rejected_iff_empty:
  assumes "k \<in> {js ''streetAddress'', js ''city'', js ''state'', js ''country''}"
    and "property data k = Some (JString s)"
  shows "((\<exists>errors. insertAddressSchema_parse (Some (JObject data)) = Inl errors
             \<and> (\<exists>e \<in> set errors. path e = [k])) \<longleftrightarrow> s = [])
       \<and> (s = [] \<longrightarrow>
            (\<exists>errors. insertAddressSchema_parse (Some (JObject data)) = Inl errors
               \<and> (\<exists>e \<in> set errors. path e = [k] \<and> code e = too_small)))"
proof (cases "s = []")
  case True
  with required_text_issues [OF assms] obtain e
    where e: "e \<in> set (insertAddressSchema_issues data)" "path e = [k]" "code e = too_small"
    by blast
  from parse_object_rejects [OF e(1)] e(2,3) True show ?thesis
    by blast
next
  case False
  with required_text_issues [OF assms]
  have none: "\<forall>e \<in> set (insertAddressSchema_issues data). path e \<noteq> [k]"
    by blast
  have "\<not> (\<exists>errors. insertAddressSchema_parse (Some (JObject data)) = Inl errors
             \<and> (\<exists>e \<in> set errors. path e = [k]))"
  proof
    assume "\<exists>errors. insertAddressSchema_parse (Some (JObject data)) = Inl errors
             \<and> (\<exists>e \<in> set errors. path e = [k])"
    then obtain errors e where "insertAddressSchema_parse (Some (JObject data)) = Inl errors"
      and "e \<in> set errors" and "path e = [k]"
      by blast
    with none parse_object_errors [of data errors] show False
      by blast
  qed
  with False show ?thesis by blast
qed

text \<open>
  The example with an empty city is rejected with an issue of type too_small for city.
\<close>

theorem required_text_rejected_iff_empty_witness:
  "\<exists>errors. insertAddressSchema_parse (Some (JObject example_empty_city)) = Inl errors
      \<and> (\<exists>e \<in> set errors. path e = [js ''city''] \<and> code e = too_small)"
proof -
  have k: "js ''city'' \<in> {js ''streetAddress'', js ''city'', js ''state'', js ''country''}"
    by simp
  have v: "property example_empty_city (js ''city'') = Some (JString [])"
    by (simp add: example_empty_city_def property_def js_def)
  from required_text_rejected_iff_empty [OF k v] show ?thesis
    by blast
qed

text \<open>
  Claim C6. When addressType is absent, its rule succeeds with the value "home": no
  issue of the submission has the path addressType, a submission that passes has
  addressType "home", and a submission whose other six keys raise no issue does
  pass. When addressType is present with a value other than the strings "home",
  "work" and "other" (a value that is not a string included), the submission is
  rejected with an issue for addressType.
\<close>

theorem addressType_default_and_enum:
  "(property data (js ''addressType'') = None \<longrightarrow>
      field (js ''addressType'') addressType_schema data = ([], Some (js ''home''))
      \<and> (\<forall>e \<in> set (insertAddressSchema_issues data). path e \<noteq> [js ''addressType''])
      \<and> (\<forall>v. insertAddressSchema_parse (Some (JObject data)) = Inr v \<longrightarrow>
             addressType v = js ''home'')
      \<and> (fst (field (js ''streetAddress'') streetAddress_schema data) = []
           \<and> fst (field (js ''city'') city_schema data) = []
           \<and> fst (field (js ''state'') state_schema data) = []
           \<and> fst (field (js ''zipCode'') zipCode_schema data) = []
           \<and> fst (field (js ''country'') country_schema data) = []
           \<and> fst (field (js ''apartment'') apartment_schema data) = [] \<longrightarrow>
          (\<exists>v. insertAddressSchema_parse (Some (JObject data)) = Inr v
              \<and> addressType v = js ''home'')))
   \<and> (\<forall>x. property data (js ''addressType'') = Some x \<longrightarrow>
         x \<notin> {JString (js ''home''), JString (js ''work''), JString (js ''other'')} \<longrightarrow>
         (\<exists>errors. insertAddressSchema_parse (Some (JObject data)) = Inl errors
            \<and> (\<exists>e \<in> set errors. path e = [js ''addressType''])))"
proof (intro conjI impI allI)
  assume absent: "property data (js ''addressType'') = None"
  note f = addressType_field_absent [OF absent]
  show "field (js ''addressType'') addressType_schema data = ([], Some (js ''home''))"
    by (rule f)
  show "\<forall>e \<in> set (insertAddressSchema_issues data). path e \<noteq> [js ''addressType'']"
    using issues_at_path(7) [of data] by (auto simp: f)
  show "addressType v = js ''home''"
    if "insertAddressSchema_parse (Some (JObject data)) = Inr v" for v
    using parse_object_values(7) [OF that] by (simp add: f)
  show "\<exists>v. insertAddressSchema_parse (Some (JObject data)) = Inr v \<and> addressType v = js ''home''"
    if others: "fst (field (js ''streetAddress'') streetAddress_schema data) = []
           \<and> fst (field (js ''city'') city_schema data) = []
           \<and> fst (field (js ''state'') state_schema data) = []
           \<and> fst (field (js ''zipCode'') zipCode_schema data) = []
           \<and> fst (field (js ''country'') country_schema data) = []
           \<and> fst (field (js ''apartment'') apartment_schema data) = []"
  proof -
    from others have none: "insertAddressSchema_issues data = []"
      by (simp add: insertAddressSchema_issues_def f)
    with no_issues_value [OF none] obtain v
      where v: "insertAddressSchema_parse (Some (JObject data)) = Inr v"
      by (auto simp: parse_object_Inr)
    from parse_object_values(7) [OF v] have "addressType v = js ''home''"
      by (simp add: f)
    with v show ?thesis by blast
  qed
next
  fix x
  assume "property data (js ''addressType'') = Some x"
    and "x \<notin> {JString (js ''home''), JString (js ''work''), JString (js ''other'')}"
  from addressType_field_outside [OF this] obtain e
    where e: "e \<in> set (fst (field (js ''addressType'') addressType_schema data))"
      and p: "path e = [js ''addressType'']"
    by blast
  from parse_object_rejects [OF issue_in_field(7) [OF e]] p
  show "\<exists>errors. insertAddressSchema_parse (Some (JObject data)) = Inl errors
            \<and> (\<exists>e \<in> set errors. path e = [js ''addressType''])"
    by blast
qed

text \<open>
  The example without addressType passes with "home"; the example with addressType
  "office" is rejected with an issue for addressType.
\<close>

theorem addressType_default_and_enum_witness:
  "(\<exists>v. insertAddressSchema_parse (Some (JObject example_without_addressType)) = Inr v
       \<and> addressType v = js ''home'')
   \<and> (\<exists>errors. insertAddressSchema_parse (Some (JObject example_office)) = Inl errors
            \<and> (\<exists>e \<in> set errors. path e = [js ''addressType'']))"
proof -
  have absent: "property example_without_addressType (js ''addressType'') = None"
    by (simp add: example_without_addressType_def property_def js_def)
  have others: "fst (field (js ''streetAddress'') streetAddress_schema example_without_addressType) = []
           \<and> fst (field (js ''city'') city_schema example_without_addressType) = []
           \<and> fst (field (js ''state'') state_schema example_without_addressType) = []
           \<and> fst (field (js ''zipCode'') zipCode_schema example_without_addressType) = []
           \<and> fst (field (js ''country'') country_schema example_without_addressType) = []
           \<and> fst (field (js ''apartment'') apartment_schema example_without_addressType) = []"
    by (simp add: example_without_addressType_def validation_defs)
  from addressType_default_and_enum [of example_without_addressType] absent others
  have 1: "\<exists>v. insertAddressSchema_parse (Some (JObject example_without_addressType)) = Inr v
       \<and> addressType v = js ''home''"
    by blast
  have present: "property example_office (js ''addressType'') = Some (JString (js ''office''))"
    by (simp add: example_office_def property_def js_def)
  have outside: "JString (js ''office'') \<notin> {JString (js ''home''), JString (js ''work''), JString (js ''other'')}"
    by (simp add: js_eq_iff)
  from addressType_default_and_enum [of example_office] present outside
  have 2: "\<exists>errors. insertAddressSchema_parse (Some (JObject example_office)) = Inl errors
            \<and> (\<exists>e \<in> set errors. path e = [js ''addressType''])"
    by blast
  from 1 2 show ?thesis by (rule conjI)
qed

section \<open>The claims about the places proxy\<close>

text \<open>
  Claim C7. For an input string of fewer than 3 characters (UTF-16 code units, which
  is what \<open>length\<close> counts), GET /api/places/suggestions answers 200 with an empty
  list of predictions and fetches nothing, whatever the platform.
\<close>

theorem suggestions_short_input:
  assumes "length s < 3"
  shows "get_places_suggestions pf (Some (QString s)) =
           (\<lparr>status = 200, body = Predictions []\<rparr>, [])"
  using assms by (simp add: get_places_suggestions_def suggestions_try_def)

text \<open>
  The input "ab", on a platform that has a key.
\<close>

theorem suggestions_short_input_witness:
  "get_places_suggestions platform_zero_results (Some (QString (js ''ab''))) =
     (\<lparr>status = 200, body = Predictions []\<rparr>, [])"
proof -
  have "length (js ''ab'') < 3"
    by (simp add: js_def)
  then show ?thesis
    by (rule suggestions_short_input)
qed

text \<open>
  Claim C8 as stated fails, for two reasons. The details route throws on every provider
  status other than "OK", where the suggestions route lets "ZERO_RESULTS" pass: with a
  key, a successful transport response and the payload \<open>{"status": "ZERO_RESULTS"}\<close>,
  the suggestions route answers 200 with no predictions and the details route answers
  500. And a payload that the handler cannot walk through is an upstream failure too:
  with a successful transport response, the provider status "OK" and a component
  without \<open>types\<close>, the details route answers 500.
\<close>

theorem details_zero_results_counterexample:
  "GOOGLE_API_KEY platform_zero_results = js ''key''
   \<and> fetch platform_zero_results (details_url (js ''abc'') (js ''key'')) =
       Some \<lparr>response_status = 200,
             response_json = Some (JObject [(js ''status'', JString (js ''ZERO_RESULTS''))])\<rparr>
   \<and> response_ok \<lparr>response_status = 200,
             response_json = Some (JObject [(js ''status'', JString (js ''ZERO_RESULTS''))])\<rparr>
   \<and> get_places_suggestions platform_zero_results (Some (QString (js ''abc''))) =
       (\<lparr>status = 200, body = Predictions []\<rparr>, [suggestions_url (js ''abc'') (js ''key'')])
   \<and> get_places_details platform_zero_results (js ''abc'') =
       (\<lparr>status = 500,
         body = Failure ''Failed to fetch address details''
                        ''Address details service is temporarily unavailable''\<rparr>,
        [details_url (js ''abc'') (js ''key'')])
   \<and> GOOGLE_API_KEY platform_untyped_component = js ''key''
   \<and> fetch platform_untyped_component (details_url (js ''abc'') (js ''key'')) =
       Some \<lparr>response_status = 200, response_json = Some untyped_component_payload\<rparr>
   \<and> response_ok \<lparr>response_status = 200, response_json = Some untyped_component_payload\<rparr>
   \<and> read (Some untyped_component_payload) (js ''status'') = Inr (Some (JString (js ''OK'')))
   \<and> get_places_details platform_untyped_component (js ''abc'') =
       (\<lparr>status = 500,
         body = Failure ''Failed to fetch address details''
                        ''Address details service is temporarily unavailable''\<rparr>,
        [details_url (js ''abc'') (js ''key'')])"
proof -
  have f: "fetch platform_zero_results url =
       Some \<lparr>response_status = 200,
             response_json = Some (JObject [(js ''status'', JString (js ''ZERO_RESULTS''))])\<rparr>" for url
    by (simp add: platform_zero_results_def)
  have e: "encodeURIComponent platform_zero_results s = Some s" for s
    by (simp add: platform_zero_results_def)
  have ne: "js ''abc'' \<noteq> []" "length (js ''abc'') = 3" "js ''key'' \<noteq> []"
    by (simp_all add: js_def)
  have sd: "suggestions_of_data (JObject [(js ''status'', JString (js ''ZERO_RESULTS''))]) =
              Inr \<lparr>status = 200, body = Predictions []\<rparr>"
    by (simp add: suggestions_of_data_def and_then_def property_def js_eq_iff)
  have dd: "details_of_data (JObject [(js ''status'', JString (js ''ZERO_RESULTS''))]) =
              Inl GooglePlacesApiError"
    by (simp add: details_of_data_def and_then_def property_def js_eq_iff)
  have sug: "get_places_suggestions platform_zero_results (Some (QString (js ''abc''))) =
       (\<lparr>status = 200, body = Predictions []\<rparr>, [suggestions_url (js ''abc'') (js ''key'')])"
    by (simp add: get_places_suggestions_def suggestions_try_def platform_zero_results_key f e
        response_ok_def sd ne Let_def)
  have det: "get_places_details platform_zero_results (js ''abc'') =
       (\<lparr>status = 500,
         body = Failure ''Failed to fetch address details''
                        ''Address details service is temporarily unavailable''\<rparr>,
        [details_url (js ''abc'') (js ''key'')])"
    by (simp add: get_places_details_def details_try_def platform_zero_results_key f
        response_ok_def dd ne Let_def)
  have fu: "fetch platform_untyped_component url =
       Some \<lparr>response_status = 200, response_json = Some untyped_component_payload\<rparr>" for url
    by (simp add: platform_untyped_component_def)
  have du: "details_of_data untyped_component_payload = Inl TypeError"
    by (simp add: untyped_component_payload_details)
  have detu: "get_places_details platform_untyped_component (js ''abc'') =
       (\<lparr>status = 500,
         body = Failure ''Failed to fetch address details''
                        ''Address details service is temporarily unavailable''\<rparr>,
        [details_url (js ''abc'') (js ''key'')])"
    by (simp add: get_places_details_def details_try_def platform_untyped_component_key fu
        response_ok_def du ne Let_def)
  from platform_zero_results_key f sug det platform_untyped_component_key fu
    untyped_component_payload_status detu
  show ?thesis
    by (simp add: response_ok_def)
qed

text \<open>
  Claim C8, amended. Without a key GET /api/places/details/:placeId answers 503 and
  fetches nothing. With a key it fetches the details URL once and answers 200 or 500.
  It answers 200, with the details built from the payload, exactly when the call
  returns, the transport response is a success, its body is JSON, the provider
  status is "OK" and the address components are well formed. It answers 500, with the
  upstream-failure body, exactly in the remaining cases: the call fails, the
  transport response is not a success, its body is not JSON, the provider status is
  anything other than "OK" (the empty-result status "ZERO_RESULTS" included), or the
  address components are not well formed.
\<close>

theorem details_availability_and_failure:
  "(GOOGLE_API_KEY pf = [] \<longrightarrow>
      get_places_details pf place_id =
        (\<lparr>status = 503,
          body = Failure ''Google Places API key not configured''
                         ''Address details service is temporarily unavailable''\<rparr>, []))
   \<and> (GOOGLE_API_KEY pf \<noteq> [] \<longrightarrow>
        snd (get_places_details pf place_id) = [details_url place_id (GOOGLE_API_KEY pf)]
      \<and> status (fst (get_places_details pf place_id)) \<in> {200, 500}
      \<and> (fetch pf (details_url place_id (GOOGLE_API_KEY pf)) = None \<longrightarrow>
            status (fst (get_places_details pf place_id)) = 500)
      \<and> (\<forall>response. fetch pf (details_url place_id (GOOGLE_API_KEY pf)) = Some response \<longrightarrow>
            \<not> response_ok response \<longrightarrow>
            status (fst (get_places_details pf place_id)) = 500)
      \<and> (\<forall>response. fetch pf (details_url place_id (GOOGLE_API_KEY pf)) = Some response \<longrightarrow>
            response_json response = None \<longrightarrow>
            status (fst (get_places_details pf place_id)) = 500)
      \<and> (\<forall>response data.
            fetch pf (details_url place_id (GOOGLE_API_KEY pf)) = Some response \<longrightarrow>
            response_json response = Some data \<longrightarrow>
            read (Some data) (js ''status'') \<noteq> Inr (Some (JString (js ''OK''))) \<longrightarrow>
            status (fst (get_places_details pf place_id)) = 500)
      \<and> (status (fst (get_places_details pf place_id)) = 200 \<longrightarrow>
            (\<exists>response data.
               fetch pf (details_url place_id (GOOGLE_API_KEY pf)) = Some response
               \<and> response_ok response \<and> response_json response = Some data
               \<and> read (Some data) (js ''status'') = Inr (Some (JString (js ''OK'')))))
      \<and> (status (fst (get_places_details pf place_id)) = 200 \<longleftrightarrow>
            (\<exists>response data.
               fetch pf (details_url place_id (GOOGLE_API_KEY pf)) = Some response
               \<and> response_ok response \<and> response_json response = Some data
               \<and> read (Some data) (js ''status'') = Inr (Some (JString (js ''OK'')))
               \<and> address_components_ok data))
      \<and> (status (fst (get_places_details pf place_id)) = 500 \<longleftrightarrow>
            (fetch pf (details_url place_id (GOOGLE_API_KEY pf)) = None
             \<or> (\<exists>response.
                  fetch pf (details_url place_id (GOOGLE_API_KEY pf)) = Some response
                  \<and> (\<not> response_ok response \<or> response_json response = None
                      \<or> (\<exists>data. response_json response = Some data
                            \<and> (read (Some data) (js ''status'') \<noteq> Inr (Some (JString (js ''OK'')))
                                \<or> \<not> address_components_ok data))))))
      \<and> (\<forall>response data r.
            fetch pf (details_url place_id (GOOGLE_API_KEY pf)) = Some response \<longrightarrow>
            response_ok response \<longrightarrow> response_json response = Some data \<longrightarrow>
            details_of_data data = Inr r \<longrightarrow>
            get_places_details pf place_id = (r, [details_url place_id (GOOGLE_API_KEY pf)]))
      \<and> (status (fst (get_places_details pf place_id)) = 500 \<longrightarrow>
            fst (get_places_details pf place_id) =
              \<lparr>status = 500,
               body = Failure ''Failed to fetch address details''
                              ''Address details service is temporarily unavailable''\<rparr>))"
proof -
  let ?url = "details_url place_id (GOOGLE_API_KEY pf)"
  let ?st = "status (fst (get_places_details pf place_id))"
  let ?failed = "\<lparr>status = 500,
               body = Failure ''Failed to fetch address details''
                              ''Address details service is temporarily unavailable''\<rparr>"
  have nokey: "get_places_details pf place_id =
        (\<lparr>status = 503,
          body = Failure ''Google Places API key not configured''
                         ''Address details service is temporarily unavailable''\<rparr>, [])"
    if "GOOGLE_API_KEY pf = []"
    using that by (simp add: get_places_details_def details_try_def)
  have calls: "snd (get_places_details pf place_id) = [?url]" if "GOOGLE_API_KEY pf \<noteq> []"
    using that
    by (simp add: get_places_details_def details_try_def Let_def split: sum.splits)
  have thrown: "fst (get_places_details pf place_id) = ?failed"
    if "GOOGLE_API_KEY pf \<noteq> []"
      and "fetch pf ?url = None \<or>
           (\<exists>response. fetch pf ?url = Some response \<and>
              (\<not> response_ok response \<or> response_json response = None \<or>
               (\<exists>data e. response_json response = Some data \<and> details_of_data data = Inl e)))"
    using that
    by (auto simp: get_places_details_def details_try_def Let_def)
  have sent: "get_places_details pf place_id = (r, [?url]) \<and> ?st = 200"
    if "GOOGLE_API_KEY pf \<noteq> []" "fetch pf ?url = Some response" "response_ok response"
      "response_json response = Some data" "details_of_data data = Inr r" for response data r
    using that details_of_data_status [OF that(5)]
    by (simp add: get_places_details_def details_try_def Let_def)
  have cases: "(\<exists>response data r. fetch pf ?url = Some response \<and> response_ok response
                  \<and> response_json response = Some data \<and> details_of_data data = Inr r)
               \<or> (fetch pf ?url = None \<or>
                   (\<exists>response. fetch pf ?url = Some response \<and>
                      (\<not> response_ok response \<or> response_json response = None \<or>
                       (\<exists>data e. response_json response = Some data
                           \<and> details_of_data data = Inl e))))"
  proof (cases "fetch pf ?url")
    case None
    then show ?thesis by simp
  next
    case (Some response)
    show ?thesis
    proof (cases "response_json response")
      case None
      with \<open>fetch pf ?url = Some response\<close> show ?thesis by simp
    next
      case (Some data)
      with \<open>fetch pf ?url = Some response\<close> show ?thesis
        by (cases "details_of_data data"; cases "response_ok response") simp_all
    qed
  qed
  have either: "?st \<in> {200, 500}" if key: "GOOGLE_API_KEY pf \<noteq> []"
    using cases thrown [OF key] sent [OF key] by fastforce
  have exact_200: "?st = 200 \<longleftrightarrow>
            (\<exists>response data. fetch pf ?url = Some response
               \<and> response_ok response \<and> response_json response = Some data
               \<and> read (Some data) (js ''status'') = Inr (Some (JString (js ''OK'')))
               \<and> address_components_ok data)"
    if key: "GOOGLE_API_KEY pf \<noteq> []"
  proof
    assume sent_200: "?st = 200"
    have "\<not> (fetch pf ?url = None \<or>
                   (\<exists>response. fetch pf ?url = Some response \<and>
                      (\<not> response_ok response \<or> response_json response = None \<or>
                       (\<exists>data e. response_json response = Some data
                           \<and> details_of_data data = Inl e))))"
    proof
      assume "fetch pf ?url = None \<or>
                   (\<exists>response. fetch pf ?url = Some response \<and>
                      (\<not> response_ok response \<or> response_json response = None \<or>
                       (\<exists>data e. response_json response = Some data
                           \<and> details_of_data data = Inl e)))"
      from thrown [OF key this] have "?st = 500"
        by simp
      with sent_200 show False
        by simp
    qed
    with cases obtain response data r
      where "fetch pf ?url = Some response" "response_ok response"
        "response_json response = Some data" "details_of_data data = Inr r"
      by blast
    with details_of_data_succeeds [of data]
    show "\<exists>response data. fetch pf ?url = Some response
               \<and> response_ok response \<and> response_json response = Some data
               \<and> read (Some data) (js ''status'') = Inr (Some (JString (js ''OK'')))
               \<and> address_components_ok data"
      by blast
  next
    assume "\<exists>response data. fetch pf ?url = Some response
               \<and> response_ok response \<and> response_json response = Some data
               \<and> read (Some data) (js ''status'') = Inr (Some (JString (js ''OK'')))
               \<and> address_components_ok data"
    then obtain response data r
      where "fetch pf ?url = Some response" "response_ok response"
        "response_json response = Some data" "details_of_data data = Inr r"
      using details_of_data_succeeds by blast
    from sent [OF key this] show "?st = 200"
      by (rule conjunct2)
  qed
  have exact_500: "?st = 500 \<longleftrightarrow>
            (fetch pf ?url = None
             \<or> (\<exists>response. fetch pf ?url = Some response
                  \<and> (\<not> response_ok response \<or> response_json response = None
                      \<or> (\<exists>data. response_json response = Some data
                            \<and> (read (Some data) (js ''status'') \<noteq> Inr (Some (JString (js ''OK'')))
                                \<or> \<not> address_components_ok data)))))"
    if key: "GOOGLE_API_KEY pf \<noteq> []"
  proof -
    from either [OF key] have "?st = 500 \<longleftrightarrow> ?st \<noteq> 200"
      by auto
    also have "\<dots> \<longleftrightarrow> \<not> (\<exists>response data. fetch pf ?url = Some response
               \<and> response_ok response \<and> response_json response = Some data
               \<and> read (Some data) (js ''status'') = Inr (Some (JString (js ''OK'')))
               \<and> address_components_ok data)"
      by (simp add: exact_200 [OF key])
    also have "\<dots> \<longleftrightarrow> (fetch pf ?url = None
             \<or> (\<exists>response. fetch pf ?url = Some response
                  \<and> (\<not> response_ok response \<or> response_json response = None
                      \<or> (\<exists>data. response_json response = Some data
                            \<and> (read (Some data) (js ''status'') \<noteq> Inr (Some (JString (js ''OK'')))
                                \<or> \<not> address_components_ok data)))))"
      by (cases "fetch pf ?url"; cases "response_json (the (fetch pf ?url))") auto
    finally show ?thesis .
  qed
  have ok: "\<exists>response data. fetch pf ?url = Some response \<and> response_ok response
               \<and> response_json response = Some data
               \<and> read (Some data) (js ''status'') = Inr (Some (JString (js ''OK'')))"
    if key: "GOOGLE_API_KEY pf \<noteq> []" and "?st = 200"
    using exact_200 [OF key] that(2) by blast
  have not_OK: "?st = 500"
    if "GOOGLE_API_KEY pf \<noteq> []" "fetch pf ?url = Some response"
      "response_json response = Some data"
      "read (Some data) (js ''status'') \<noteq> Inr (Some (JString (js ''OK'')))" for response data
    using exact_500 [OF that(1)] that(2,3,4) by blast
  have failed: "fst (get_places_details pf place_id) = ?failed"
    if key: "GOOGLE_API_KEY pf \<noteq> []" and "?st = 500"
    using cases thrown [OF key] sent [OF key] that(2) by fastforce
  have st_thrown: "?st = 500"
    if "GOOGLE_API_KEY pf \<noteq> []"
      and "fetch pf ?url = None \<or>
           (\<exists>response. fetch pf ?url = Some response \<and>
              (\<not> response_ok response \<or> response_json response = None))"
    using exact_500 [OF that(1)] that(2) by blast
  show ?thesis
  proof (intro conjI impI allI)
    show "status (fst (get_places_details pf place_id)) = 200 \<longleftrightarrow>
            (\<exists>response data. fetch pf ?url = Some response
               \<and> response_ok response \<and> response_json response = Some data
               \<and> read (Some data) (js ''status'') = Inr (Some (JString (js ''OK'')))
               \<and> address_components_ok data)"
      if "GOOGLE_API_KEY pf \<noteq> []"
      by (rule exact_200 [OF that])
    show "?st = 500 \<longleftrightarrow>
            (fetch pf ?url = None
             \<or> (\<exists>response. fetch pf ?url = Some response
                  \<and> (\<not> response_ok response \<or> response_json response = None
                      \<or> (\<exists>data. response_json response = Some data
                            \<and> (read (Some data) (js ''status'') \<noteq> Inr (Some (JString (js ''OK'')))
                                \<or> \<not> address_components_ok data)))))"
      if "GOOGLE_API_KEY pf \<noteq> []"
      by (rule exact_500 [OF that])
  qed (use nokey calls either ok not_OK failed st_thrown sent in blast)+
qed

text \<open>
  Without a key the answer is 503; with a key and the provider status "ZERO_RESULTS"
  it is 500; with a key and a well-formed payload of status "OK" it is 200, with the
  locality of the payload as the details.
\<close>

theorem details_availability_and_failure_witness:
  "get_places_details platform_without_key (js ''abc'') =
     (\<lparr>status = 503,
       body = Failure ''Google Places API key not configured''
                      ''Address details service is temporarily unavailable''\<rparr>, [])
   \<and> status (fst (get_places_details platform_zero_results (js ''abc''))) = 500
   \<and> get_places_details platform_locality (js ''abc'') =
       (\<lparr>status = 200,
         body = Details (no_details\<lparr>locality := Some (JString (js ''Springfield''))\<rparr>)\<rparr>,
        [details_url (js ''abc'') (js ''key'')])
   \<and> status (fst (get_places_details platform_locality (js ''abc''))) = 200"
proof -
  have "GOOGLE_API_KEY platform_without_key = []"
    by (simp add: GOOGLE_API_KEY_def platform_without_key_def)
  with details_availability_and_failure [of platform_without_key "js ''abc''"]
  have 1: "get_places_details platform_without_key (js ''abc'') =
     (\<lparr>status = 503,
       body = Failure ''Google Places API key not configured''
                      ''Address details service is temporarily unavailable''\<rparr>, [])"
    by blast
  have key: "GOOGLE_API_KEY platform_zero_results \<noteq> []"
    by (simp add: platform_zero_results_key js_def)
  have f: "fetch platform_zero_results (details_url (js ''abc'') (GOOGLE_API_KEY platform_zero_results)) =
       Some \<lparr>response_status = 200,
             response_json = Some (JObject [(js ''status'', JString (js ''ZERO_RESULTS''))])\<rparr>"
    by (simp add: platform_zero_results_def)
  have j: "response_json \<lparr>response_status = 200,
             response_json = Some (JObject [(js ''status'', JString (js ''ZERO_RESULTS''))])\<rparr>
           = Some (JObject [(js ''status'', JString (js ''ZERO_RESULTS''))])"
    by simp
  have st: "read (Some (JObject [(js ''status'', JString (js ''ZERO_RESULTS''))])) (js ''status'')
              \<noteq> Inr (Some (JString (js ''OK'')))"
    by (simp add: property_def js_eq_iff)
  from details_availability_and_failure [of platform_zero_results "js ''abc''"] key f j st
  have 2: "status (fst (get_places_details platform_zero_results (js ''abc''))) = 500"
    by blast
  have keyl: "GOOGLE_API_KEY platform_locality \<noteq> []"
    by (simp add: platform_locality_key js_def)
  have fl: "fetch platform_locality (details_url (js ''abc'') (GOOGLE_API_KEY platform_locality)) =
       Some \<lparr>response_status = 200, response_json = Some locality_payload\<rparr>"
    by (simp add: platform_locality_def)
  have okl: "response_ok \<lparr>response_status = 200, response_json = Some locality_payload\<rparr>"
    by (simp add: response_ok_def)
  have jl: "response_json \<lparr>response_status = 200, response_json = Some locality_payload\<rparr>
           = Some locality_payload"
    by simp
  from details_availability_and_failure [of platform_locality "js ''abc''"] keyl fl okl jl
    locality_payload_details
  have "get_places_details platform_locality (js ''abc'') =
       (\<lparr>status = 200,
         body = Details (no_details\<lparr>locality := Some (JString (js ''Springfield''))\<rparr>)\<rparr>,
        [details_url (js ''abc'') (GOOGLE_API_KEY platform_locality)])"
    by blast
  then have 3: "get_places_details platform_locality (js ''abc'') =
       (\<lparr>status = 200,
         body = Details (no_details\<lparr>locality := Some (JString (js ''Springfield''))\<rparr>)\<rparr>,
        [details_url (js ''abc'') (js ''key'')])"
    by (simp add: platform_locality_key)
  from locality_payload_status locality_payload_components
    details_availability_and_failure [of platform_locality "js ''abc''"] keyl fl okl jl
  have 4: "status (fst (get_places_details platform_locality (js ''abc''))) = 200"
    by blast
  from 1 2 3 4 show ?thesis by blast
qed

text \<open>
  Claim C10. When the input parameter is missing, is not a single string, or is a
  string of fewer than 3 characters, GET /api/places/suggestions answers 200 with an
  empty list of predictions and fetches nothing, on every platform, so also without
  a key. The answer 503 is given only when there is no key and the input is a string
  of at least 3 characters, and it is given then, without any call.
\<close>

theorem short_input_check_precedes_key_check:
  "((input = None \<or> (\<forall>s. input \<noteq> Some (QString s))
      \<or> (\<exists>s. input = Some (QString s) \<and> length s < 3)) \<longrightarrow>
        get_places_suggestions pf input = (\<lparr>status = 200, body = Predictions []\<rparr>, []))
   \<and> (status (fst (get_places_suggestions pf input)) = 503 \<longrightarrow>
        GOOGLE_API_KEY pf = [] \<and> (\<exists>s. input = Some (QString s) \<and> 3 \<le> length s))
   \<and> (\<forall>s. GOOGLE_API_KEY pf = [] \<longrightarrow> input = Some (QString s) \<longrightarrow> 3 \<le> length s \<longrightarrow>
        status (fst (get_places_suggestions pf input)) = 503
        \<and> snd (get_places_suggestions pf input) = [])"
proof -
  have short: "get_places_suggestions pf input = (\<lparr>status = 200, body = Predictions []\<rparr>, [])"
    if "input = None \<or> (\<forall>s. input \<noteq> Some (QString s))
      \<or> (\<exists>s. input = Some (QString s) \<and> length s < 3)"
    using that
    by (auto simp: get_places_suggestions_def suggestions_try_def
        split: option.splits query_value.splits)
  have only: "GOOGLE_API_KEY pf = [] \<and> (\<exists>s. input = Some (QString s) \<and> 3 \<le> length s)"
    if unavailable: "status (fst (get_places_suggestions pf input)) = 503"
  proof (cases input)
    case None
    with unavailable show ?thesis
      by (simp add: get_places_suggestions_def suggestions_try_def)
  next
    case (Some q)
    show ?thesis
    proof (cases q)
      case (QString s)
      show ?thesis
      proof (cases "s = [] \<or> length s < 3")
        case True
        with unavailable Some QString show ?thesis
          by (simp add: get_places_suggestions_def suggestions_try_def)
      next
        case long: False
        show ?thesis
        proof (cases "GOOGLE_API_KEY pf = []")
          case True
          with long Some QString show ?thesis by simp
        next
          case False
          with unavailable long Some QString have False
            by (auto simp: get_places_suggestions_def suggestions_try_def Let_def
                split: option.splits sum.splits if_splits
                dest: suggestions_of_data_status)
          then show ?thesis ..
        qed
      qed
    next
      case (QArray xs)
      with unavailable Some show ?thesis
        by (simp add: get_places_suggestions_def suggestions_try_def)
    next
      case (QObject ps)
      with unavailable Some show ?thesis
        by (simp add: get_places_suggestions_def suggestions_try_def)
    qed
  qed
  have occurs: "status (fst (get_places_suggestions pf input)) = 503
        \<and> snd (get_places_suggestions pf input) = []"
    if "GOOGLE_API_KEY pf = []" "input = Some (QString s)" "3 \<le> length s" for s
    using that by (auto simp: get_places_suggestions_def suggestions_try_def)
  from short only occurs show ?thesis
    by blast
qed

text \<open>
  On the platform without a key: a missing input, an array, and the string "ab" get
  the empty list; the string "abc" gets 503.
\<close>

theorem short_input_check_precedes_key_check_witness:
  "get_places_suggestions platform_without_key None = (\<lparr>status = 200, body = Predictions []\<rparr>, [])
   \<and> get_places_suggestions platform_without_key (Some (QArray [QString (js ''abc'')])) =
       (\<lparr>status = 200, body = Predictions []\<rparr>, [])
   \<and> get_places_suggestions platform_without_key (Some (QString (js ''ab''))) =
       (\<lparr>status = 200, body = Predictions []\<rparr>, [])
   \<and> status (fst (get_places_suggestions platform_without_key (Some (QString (js ''abc''))))) = 503"
proof -
  have key: "GOOGLE_API_KEY platform_without_key = []"
    by (simp add: GOOGLE_API_KEY_def platform_without_key_def)
  have 1: "get_places_suggestions platform_without_key None =
             (\<lparr>status = 200, body = Predictions []\<rparr>, [])"
    using short_input_check_precedes_key_check [of None platform_without_key] by simp
  have 2: "get_places_suggestions platform_without_key (Some (QArray [QString (js ''abc'')])) =
             (\<lparr>status = 200, body = Predictions []\<rparr>, [])"
    using short_input_check_precedes_key_check
      [of "Some (QArray [QString (js ''abc'')])" platform_without_key] by simp
  have "length (js ''ab'') < 3"
    by (simp add: js_def)
  then have 3: "get_places_suggestions platform_without_key (Some (QString (js ''ab''))) =
             (\<lparr>status = 200, body = Predictions []\<rparr>, [])"
    using short_input_check_precedes_key_check
      [of "Some (QString (js ''ab''))" platform_without_key] by blast
  have "3 \<le> length (js ''abc'')"
    by (simp add: js_def)
  with key have 4:
    "status (fst (get_places_suggestions platform_without_key (Some (QString (js ''abc''))))) = 503"
    using short_input_check_precedes_key_check
      [of "Some (QString (js ''abc''))" platform_without_key] by blast
  from 1 2 3 4 show ?thesis by blast
qed

end
